theory Spec2Isabelle
  imports Main "HOL-Library.AList" "HOL-Library.Sublist"
begin

section \<open>DataScout: the scraper service and its store slice\<close>

text \<open>
  A shallow embedding of \<^verbatim>\<open>src/services/scraper/index.ts\<close> (class
  \<^verbatim>\<open>ScraperService\<close>) and of the reducers of
  \<^verbatim>\<open>src/store/slices/scraperSlice.ts\<close>.

  What the service gets from outside is a parameter of the model: the replies of
  \<^verbatim>\<open>axios.get\<close>, the elements \<^verbatim>\<open>cheerio\<close> selects, the matcher a
  \<^verbatim>\<open>RegExp\<close> compiles to, and the calls of pause, resume and stop that arrive while
  the service awaits a timer or a reply.

  Text that comes from a page (the body, the text, markup and attribute values of a node,
  the matches of a pattern) is a sequence of UTF-16 code units, written as natural numbers.
  Names, addresses, patterns and messages, which the code only compares and concatenates,
  are strings.
\<close>

subsection \<open>Data model\<close>

text \<open>Text of a page, by code units, and the code units of a string of the model.\<close>

type_synonym jsstring = "nat list"

definition units :: "string \<Rightarrow> jsstring" where
  "units s = map of_char s"

text \<open>\<^verbatim>\<open>SelectorResult.value\<close> and the values of a \<^verbatim>\<open>ScrapedItem\<close>:
  \<^verbatim>\<open>string | string[] | null\<close>.\<close>

datatype jsvalue = Str jsstring | Arr "jsstring list" | Null

text \<open>\<^verbatim>\<open>SelectorResult\<close>: \<^verbatim>\<open>{ name, value }\<close>.\<close>

record SelectorResult =
  r_name :: string
  r_value :: jsvalue

text \<open>A \<^verbatim>\<open>ScrapedItem\<close> is a JavaScript object, given by its own fields: their keys are
  distinct and a new key goes to the end, which is what \<open>AList.update\<close> does. (JavaScript
  lists keys that are array indices before the others; the model keeps the order of
  assignment.)\<close>

type_synonym ScrapedItem = "(string \<times> jsvalue) list"

text \<open>\<^verbatim>\<open>SelectorConfig\<close>. The field \<open>s_type\<close> is the string the \<^verbatim>\<open>switch\<close>
  of \<^verbatim>\<open>applySelector\<close> compares; \<open>s_attribute\<close> is optional.\<close>

record SelectorConfig =
  s_id :: string
  s_name :: string
  s_type :: string
  s_value :: string
  s_attribute :: "string option"
  s_multiple :: bool

text \<open>\<^verbatim>\<open>PaginationConfig\<close>: \<open>p_selector\<close> and \<open>p_maxPages\<close> may be absent; the
  source tests both for truthiness.\<close>

record PaginationConfig =
  p_enabled :: bool
  p_type :: string
  p_selector :: "string option"
  p_maxPages :: "nat option"

record RateLimitConfig =
  requestDelay :: int
  concurrentRequests :: nat
  timeoutMs :: nat
  retries :: nat

record ScraperConfig =
  c_url :: string
  c_selectors :: "SelectorConfig list"
  c_pagination :: "PaginationConfig option"
  c_rateLimit :: RateLimitConfig
  c_headers :: "(string \<times> string) list"

text \<open>The node a structural selector matched, as far as \<^verbatim>\<open>extractValueFromElement\<close>
  reads it: \<^verbatim>\<open>$el.text()\<close>, \<^verbatim>\<open>$el.html()\<close> and \<^verbatim>\<open>$el.attr(name)\<close>.\<close>

record element =
  el_text :: jsstring
  el_html :: jsstring
  el_attrs :: "(string \<times> jsstring) list"

subsection \<open>Strings\<close>

text \<open>\<^verbatim>\<open>String.prototype.trim\<close> removes, at both ends, the code units that ECMAScript
  calls WhiteSpace or LineTerminator: tab, line feed, vertical tab, form feed, carriage
  return, space, no-break space, U+1680, U+2000 to U+200A, U+2028, U+2029, U+202F, U+205F,
  U+3000 and U+FEFF.\<close>

definition isWhiteSpace :: "nat \<Rightarrow> bool" where
  "isWhiteSpace c \<longleftrightarrow>
     c \<in> {0x09, 0x0A, 0x0B, 0x0C, 0x0D, 0x20, 0xA0, 0x1680, 0x2028, 0x2029, 0x202F, 0x205F,
          0x3000, 0xFEFF}
     \<or> (0x2000 \<le> c \<and> c \<le> 0x200A)"

definition trim :: "jsstring \<Rightarrow> jsstring" where
  "trim s = rev (dropWhile isWhiteSpace (rev (dropWhile isWhiteSpace s)))"

text \<open>\<^verbatim>\<open>Number.prototype.toString\<close> on a natural number: its decimal digits.\<close>

definition digit_char :: "nat \<Rightarrow> char" where
  "digit_char d = ''0123456789'' ! d"

function toString :: "nat \<Rightarrow> string" where
  "toString n = (if n < 10 then [digit_char n] else toString (n div 10) @ [digit_char (n mod 10)])"
  by pat_completeness auto
termination
  by (relation "measure (\<lambda>n. n)") auto

declare toString.simps [simp del]

text \<open>\<^verbatim>\<open>s.replace(pat, rep)\<close> with a string pattern: the first occurrence of
  \<open>pat\<close> is replaced, the rest of \<open>s\<close> is kept.\<close>

fun replaceFirst :: "string \<Rightarrow> string \<Rightarrow> string \<Rightarrow> string" where
  "replaceFirst pat rep [] = (if pat = [] then rep else [])"
| "replaceFirst pat rep (c # cs) =
     (if prefix pat (c # cs) then rep @ drop (length pat) (c # cs)
      else c # replaceFirst pat rep cs)"

text \<open>\<^verbatim>\<open>s.includes(pat)\<close>.\<close>

fun includesStr :: "string \<Rightarrow> string \<Rightarrow> bool" where
  "includesStr [] pat = (pat = [])"
| "includesStr (c # cs) pat = (prefix pat (c # cs) \<or> includesStr cs pat)"

text \<open>Truthiness of an optional string: absent and empty are both falsy.\<close>

fun truthy :: "'a list option \<Rightarrow> bool" where
  "truthy None = False"
| "truthy (Some s) = (s \<noteq> [])"

subsection \<open>Record Structurer: \<^verbatim>\<open>structureResults\<close>\<close>

text \<open>\<^verbatim>\<open>selectorResults: Record<string, SelectorResult[]>\<close> is a plain JavaScript object:
  its own fields, in key order, and its prototype, which is \<^verbatim>\<open>Object.prototype\<close> until
  an array is put in its place.\<close>

record resultsObject =
  own :: "(string \<times> SelectorResult list) list"
  proto :: "SelectorResult list option"

definition emptyObject :: resultsObject where
  "emptyObject = \<lparr>own = [], proto = None\<rparr>"

text \<open>\<^verbatim>\<open>selectorResults[name] = results\<close>. For the name \<^verbatim>\<open>__proto__\<close> the
  assignment runs the setter of \<^verbatim>\<open>Object.prototype\<close>: the array becomes the prototype
  and no field is added.\<close>

definition assign :: "string \<Rightarrow> SelectorResult list \<Rightarrow> resultsObject \<Rightarrow> resultsObject" where
  "assign name results obj =
     (if name = ''__proto__'' then obj\<lparr>proto := Some results\<rparr>
      else obj\<lparr>own := AList.update name results (own obj)\<rparr>)"

text \<open>What \<^verbatim>\<open>selectorResults[key]\<close> is for a key of the loop: an array of results for
  an own field, one result object for an index inherited from an array prototype.\<close>

datatype entry = Array "SelectorResult list" | Object SelectorResult

text \<open>\<^verbatim>\<open>for (const key in selectorResults)\<close>: the own keys, then the indices of the
  prototype array that no own key hides.\<close>

definition forIn :: "resultsObject \<Rightarrow> (string \<times> entry) list" where
  "forIn obj =
     map (\<lambda>(key, results). (key, Array results)) (own obj) @
     (case proto obj of
        None \<Rightarrow> []
      | Some arr \<Rightarrow>
          filter (\<lambda>(key, e). key \<notin> set (map fst (own obj)))
            (map (\<lambda>i. (toString i, Object (arr ! i))) [0..<length arr]))"

text \<open>The first loop computes \<^verbatim>\<open>maxLength\<close>, starting from 1. A result object has no
  \<^verbatim>\<open>length\<close>, and \<^verbatim>\<open>undefined > maxLength\<close> is false.\<close>

definition maxLength :: "resultsObject \<Rightarrow> nat" where
  "maxLength selectorResults =
     foldl (\<lambda>m (key, e).
         case e of
           Array results \<Rightarrow> if length results > m then length results else m
         | Object r \<Rightarrow> m)
       1 (forIn selectorResults)"

text \<open>The value the inner loop assigns to \<^verbatim>\<open>item[key]\<close> at index \<open>i\<close>. For a result
  object both comparisons with its \<^verbatim>\<open>length\<close> are false.\<close>

definition cell :: "nat \<Rightarrow> entry \<Rightarrow> jsvalue" where
  "cell i e =
     (case e of
        Array results \<Rightarrow>
          if i < length results then r_value (results ! i)
          else if length results = 1 then r_value (results ! 0)
          else Null
      | Object r \<Rightarrow> Null)"

text \<open>\<^verbatim>\<open>item[key] = value\<close>: the key \<^verbatim>\<open>__proto__\<close> adds no field (the setter changes
  or keeps the prototype of the record, which is not among its fields).\<close>

definition setField :: "string \<Rightarrow> jsvalue \<Rightarrow> ScrapedItem \<Rightarrow> ScrapedItem" where
  "setField key v item = (if key = ''__proto__'' then item else AList.update key v item)"

definition buildItem :: "nat \<Rightarrow> resultsObject \<Rightarrow> ScrapedItem" where
  "buildItem i selectorResults =
     foldl (\<lambda>item (key, e). setField key (cell i e) item) [] (forIn selectorResults)"

definition structureResults :: "resultsObject \<Rightarrow> ScrapedItem list" where
  "structureResults selectorResults =
     map (\<lambda>i. buildItem i selectorResults) [0..<maxLength selectorResults]"

subsection \<open>Pagination Resolver: \<^verbatim>\<open>getNextPageUrl\<close>\<close>

definition getNextPageUrl :: "string \<Rightarrow> PaginationConfig \<Rightarrow> nat \<Rightarrow> string option" where
  "getNextPageUrl currentUrl pagination nextPageNum =
     (if \<not> p_enabled pagination \<or> \<not> truthy (p_selector pagination) then None
      else if p_type pagination = ''url''
        then Some (replaceFirst ''{page}'' (toString nextPageNum) (the (p_selector pagination)))
      else if p_type pagination = ''button'' then None
      else if p_type pagination = ''infinite'' then None
      else None)"

subsection \<open>Selector Evaluator: \<^verbatim>\<open>extractValueFromElement\<close>\<close>

text \<open>\<^verbatim>\<open>x || null\<close> on a string that may be undefined.\<close>

fun orNull :: "'a list option \<Rightarrow> 'a list option" where
  "orNull None = None"
| "orNull (Some s) = (if s = [] then None else Some s)"

definition extractValueFromElement :: "element \<Rightarrow> string \<Rightarrow> jsstring option" where
  "extractValueFromElement el attribute =
     (if attribute = ''text'' then Some (trim (el_text el))
      else if attribute = ''html'' then orNull (Some (el_html el))
      else orNull (map_of (el_attrs el) attribute))"

subsection \<open>The store: \<^verbatim>\<open>scraperSlice\<close>\<close>

datatype status = Idle | Running | Paused | Completed | Error

record progress =
  current :: nat
  total :: nat
  startTime :: "nat option"
  endTime :: "nat option"

record historyEntry =
  h_id :: string
  h_url :: string
  h_timestamp :: nat
  h_itemCount :: nat

record ScraperState =
  config :: ScraperConfig
  status :: status
  data :: "ScrapedItem list"
  error :: "string option"
  progress :: progress
  history :: "historyEntry list"

text \<open>The reducers. \<^verbatim>\<open>Date.now()\<close> and \<^verbatim>\<open>uuidv4()\<close> are arguments.
  The reducers that share a name with a method of the service carry the suffix \<open>R\<close>.\<close>

definition startScrapingR :: "nat \<Rightarrow> ScraperState \<Rightarrow> ScraperState" where
  "startScrapingR now state =
     state\<lparr>status := Running, error := None, data := [],
       progress := \<lparr>current = 0, total = 0, startTime = Some now, endTime = None\<rparr>\<rparr>"

definition pauseScrapingR :: "ScraperState \<Rightarrow> ScraperState" where
  "pauseScrapingR state = state\<lparr>status := Paused\<rparr>"

definition resumeScrapingR :: "ScraperState \<Rightarrow> ScraperState" where
  "resumeScrapingR state = state\<lparr>status := Running\<rparr>"

definition stopScrapingR :: "nat \<Rightarrow> ScraperState \<Rightarrow> ScraperState" where
  "stopScrapingR now state =
     state\<lparr>status := Idle, progress := (progress state)\<lparr>endTime := Some now\<rparr>\<rparr>"

definition completeScraping :: "string \<Rightarrow> nat \<Rightarrow> ScraperState \<Rightarrow> ScraperState" where
  "completeScraping uuid now state =
     state\<lparr>status := Completed,
       progress := (progress state)\<lparr>endTime := Some now\<rparr>,
       history := history state @
         [\<lparr>h_id = uuid, h_url = c_url (config state), h_timestamp = now,
           h_itemCount = length (data state)\<rparr>]\<rparr>"

definition appendScrapedData :: "ScrapedItem list \<Rightarrow> ScraperState \<Rightarrow> ScraperState" where
  "appendScrapedData payload state = state\<lparr>data := data state @ payload\<rparr>"

definition updateProgress :: "nat \<Rightarrow> nat \<Rightarrow> ScraperState \<Rightarrow> ScraperState" where
  "updateProgress cur tot state =
     state\<lparr>progress := (progress state)\<lparr>current := cur, total := tot\<rparr>\<rparr>"

definition setError :: "string \<Rightarrow> ScraperState \<Rightarrow> ScraperState" where
  "setError payload state = state\<lparr>status := Error, error := Some payload\<rparr>"

subsection \<open>The service and its surroundings\<close>

text \<open>\<^verbatim>\<open>ScraperServiceConfig\<close>, fixed by the constructor.\<close>

record ScraperServiceConfig =
  proxyURL :: "string option"
  timeout :: "nat option"
  maxRetries :: "nat option"
  userAgent :: "string option"

text \<open>The private fields of \<^verbatim>\<open>ScraperService\<close>.\<close>

record service =
  isRunning :: bool
  isPaused :: bool
  shouldStop :: bool
  currentPage :: nat
  totalItems :: nat
  processedItems :: nat

text \<open>What a run can be observed to do: a GET for an address, a timer of so many
  milliseconds.\<close>

datatype event = Get string | Sleep nat

text \<open>The whole state: the service, the store, the events so far, the number of requests
  sent, the number of suspensions passed, the clock and the number of identifiers drawn.\<close>

record world =
  svc :: service
  store :: ScraperState
  trace :: "event list"
  requests :: nat
  ticks :: nat
  clock :: nat
  uuids :: nat

text \<open>A rejected \<^verbatim>\<open>axios.get\<close>: \<^verbatim>\<open>error.message\<close> and, when there is a response,
  \<^verbatim>\<open>error.response.status\<close> with \<^verbatim>\<open>error.response.data?.error\<close>.\<close>

record axiosError =
  e_message :: string
  e_response :: "(nat \<times> string option) option"

datatype reply = Resolved nat jsstring | Rejected axiosError

text \<open>A compiled pattern: at a start index of the input, the end index of the match that
  starts there, if there is one.\<close>

type_synonym matcher = "jsstring \<Rightarrow> nat \<Rightarrow> nat option"

text \<open>The calls the user interface makes, through the store's middleware.\<close>

datatype control = Pause | Resume | Stop

text \<open>The surroundings: the reply to the \<open>n\<close>-th request, the calls arriving during the
  \<open>n\<close>-th suspension, the elements a structural query selects in a document (or the
  message of the exception it throws), the matcher of a pattern (or the message of the
  exception \<^verbatim>\<open>new RegExp\<close> throws), and the \<open>n\<close>-th identifier.\<close>

record env =
  axiosGet :: "nat \<Rightarrow> string \<Rightarrow> reply"
  calls :: "nat \<Rightarrow> control list"
  cheerio :: "jsstring \<Rightarrow> string \<Rightarrow> string + element list"
  newRegExp :: "string \<Rightarrow> string + matcher"
  uuidv4 :: "nat \<Rightarrow> string"

text \<open>\<^verbatim>\<open>handleError\<close>: every error the service meets is an \<^verbatim>\<open>Error\<close> instance, so
  the message dispatched is its \<^verbatim>\<open>message\<close>.\<close>

definition handleError :: "string \<Rightarrow> world \<Rightarrow> world" where
  "handleError errorMessage w = w\<lparr>store := setError errorMessage (store w)\<rparr>"

definition pauseScraping :: "world \<Rightarrow> world" where
  "pauseScraping w = w\<lparr>svc := (svc w)\<lparr>isPaused := True\<rparr>\<rparr>"

definition resumeScraping :: "world \<Rightarrow> world" where
  "resumeScraping w = w\<lparr>svc := (svc w)\<lparr>isPaused := False\<rparr>\<rparr>"

definition stopScraping :: "world \<Rightarrow> world" where
  "stopScraping w =
     w\<lparr>svc := (svc w)\<lparr>shouldStop := True, isPaused := False\<rparr>,
       store := stopScrapingR (clock w) (store w)\<rparr>"

text \<open>The middleware: the action reaches the reducer first, then the service's method is
  called. In the source the dispatch inside \<^verbatim>\<open>stopScraping\<close> reaches the middleware
  again, which calls \<^verbatim>\<open>stopScraping\<close> again, and so on until the stack is exhausted
  and a \<^verbatim>\<open>RangeError\<close> goes to the caller of the first dispatch. Every round writes the
  same fields with the same values, so the state it leaves is the state after one round,
  which is what \<open>deliver Stop\<close> gives; the exception is outside the state.\<close>

fun deliver :: "control \<Rightarrow> world \<Rightarrow> world" where
  "deliver Pause w = pauseScraping (w\<lparr>store := pauseScrapingR (store w)\<rparr>)"
| "deliver Resume w = resumeScraping (w\<lparr>store := resumeScrapingR (store w)\<rparr>)"
| "deliver Stop w = stopScraping (w\<lparr>store := stopScrapingR (clock w) (store w)\<rparr>)"

text \<open>A suspension: the service awaits a timer or a reply, and the calls of that interval
  run before it goes on.\<close>

definition suspend :: "env \<Rightarrow> world \<Rightarrow> world" where
  "suspend env w = (foldl (\<lambda>w c. deliver c w) w (calls env (ticks w)))\<lparr>ticks := Suc (ticks w)\<rparr>"

definition sleep :: "env \<Rightarrow> nat \<Rightarrow> world \<Rightarrow> world" where
  "sleep env ms w = suspend env (w\<lparr>trace := trace w @ [Sleep ms], clock := clock w + ms\<rparr>)"

definition applyRateLimit :: "env \<Rightarrow> RateLimitConfig \<Rightarrow> world \<Rightarrow> world" where
  "applyRateLimit env rateLimit w =
     (if requestDelay rateLimit > 0 then sleep env (nat (requestDelay rateLimit)) w else w)"

subsection \<open>Fetch Client: \<^verbatim>\<open>fetchUrl\<close>\<close>

text \<open>The \<^verbatim>\<open>try\<close> block: one GET; a reply with a status other than 200 is thrown as
  \<^verbatim>\<open>Received status code ...\<close>. The headers, the timeout and the relay's address go to
  \<^verbatim>\<open>axios.get\<close> and decide nothing else, so they are part of what the reply is given
  for.\<close>

definition attempt :: "env \<Rightarrow> string \<Rightarrow> world \<Rightarrow> (jsstring + axiosError) \<times> world" where
  "attempt env url w =
     (let w1 = suspend env (w\<lparr>trace := trace w @ [Get url], requests := Suc (requests w)\<rparr>)
      in case axiosGet env (requests w) url of
           Resolved st d \<Rightarrow>
             if st = 200 then (Inl d, w1)
             else (Inr \<lparr>e_message = ''Received status code '' @ toString st, e_response = None\<rparr>, w1)
         | Rejected e \<Rightarrow> (Inr e, w1))"

text \<open>The first part of the \<^verbatim>\<open>catch\<close> block: the proxy's own errors are reported at
  once.\<close>

definition hasStatus :: "axiosError \<Rightarrow> nat \<Rightarrow> bool" where
  "hasStatus e n = (case e_response e of None \<Rightarrow> False | Some (st, d) \<Rightarrow> st = n)"

definition dataError :: "axiosError \<Rightarrow> string \<Rightarrow> string" where
  "dataError e dflt =
     (case e_response e of None \<Rightarrow> dflt
      | Some (st, d) \<Rightarrow> if truthy d then the d else dflt)"

definition reportProxyError :: "axiosError \<Rightarrow> world \<Rightarrow> world" where
  "reportProxyError e w =
     (if hasStatus e 502 then handleError (''Proxy error: '' @ dataError e ''Bad Gateway'') w
      else if hasStatus e 504 then handleError (''Proxy error: '' @ dataError e ''Gateway Timeout'') w
      else if e_message e \<noteq> [] \<and> includesStr (e_message e) ''Network Error''
        then handleError ''Proxy server connection failed. Make sure the proxy server is running.'' w
      else w)"

text \<open>\<^verbatim>\<open>this.serviceConfig.maxRetries || 3\<close>.\<close>

definition maxRetriesOf :: "ScraperServiceConfig \<Rightarrow> nat" where
  "maxRetriesOf sc = (case maxRetries sc of None \<Rightarrow> 3 | Some n \<Rightarrow> if n = 0 then 3 else n)"

function fetchUrl ::
  "env \<Rightarrow> ScraperServiceConfig \<Rightarrow> string \<Rightarrow> nat \<Rightarrow> world \<Rightarrow> jsstring option \<times> world" where
  "fetchUrl env sc url retryCount w =
     (case attempt env url w of
        (Inl d, w1) \<Rightarrow> (Some d, w1)
      | (Inr e, w1) \<Rightarrow>
          if retryCount < maxRetriesOf sc
          then fetchUrl env sc url (retryCount + 1)
                 (sleep env (2 ^ retryCount * 1000) (reportProxyError e w1))
          else (None, handleError (e_message e) (reportProxyError e w1)))"
  by pat_completeness auto
termination
  by (relation "measure (\<lambda>(env, sc, url, retryCount, w). maxRetriesOf sc - retryCount)") auto

declare fetchUrl.simps [simp del]

subsection \<open>Selector Evaluator: \<^verbatim>\<open>applySelector\<close>\<close>

text \<open>\<^verbatim>\<open>regex.exec(html)\<close> of a global pattern, from \<^verbatim>\<open>lastIndex\<close>: the first index at
  or after \<^verbatim>\<open>lastIndex\<close> where the matcher succeeds gives the match and the new
  \<^verbatim>\<open>lastIndex\<close>, the end of the match; past the end of the input the result is null.\<close>

function regexExec :: "matcher \<Rightarrow> jsstring \<Rightarrow> nat \<Rightarrow> (jsstring \<times> nat) option" where
  "regexExec m S lastIndex =
     (if lastIndex > length S then None
      else case m S lastIndex of
             Some e \<Rightarrow> Some (take (e - lastIndex) (drop lastIndex S), e)
           | None \<Rightarrow> regexExec m S (lastIndex + 1))"
  by pat_completeness auto
termination
  by (relation "measure (\<lambda>(m, S, lastIndex). Suc (length S) - lastIndex)") auto

declare regexExec.simps [simp del]

text \<open>The largest length of an array: \<open>2\<^sup>3\<^sup>2 - 1\<close>.\<close>

definition maxArrayLength :: nat where
  "maxArrayLength = 4294967295"

text \<open>\<^verbatim>\<open>while ((match = regex.exec(html)) !== null) matches.push(match[0])\<close>. On a full
  array \<^verbatim>\<open>push\<close> throws a \<^verbatim>\<open>RangeError\<close> with the message
  \<^verbatim>\<open>Invalid array length\<close>; that is the only bound of the loop, and the \<open>Inl\<close> of the
  result.\<close>

function collectMatches :: "matcher \<Rightarrow> jsstring \<Rightarrow> nat \<Rightarrow> jsstring list \<Rightarrow> string + jsstring list" where
  "collectMatches m html lastIndex matches =
     (case regexExec m html lastIndex of
        None \<Rightarrow> Inr matches
      | Some (match0, lastIndex') \<Rightarrow>
          if length matches < maxArrayLength
          then collectMatches m html lastIndex' (matches @ [match0])
          else Inl ''Invalid array length'')"
  by pat_completeness auto
termination
  by (relation "measure (\<lambda>(m, html, lastIndex, matches). maxArrayLength - length matches)") auto

declare collectMatches.simps [simp del]

text \<open>\<^verbatim>\<open>selector.attribute || 'text'\<close>.\<close>

definition attributeOf :: "SelectorConfig \<Rightarrow> string" where
  "attributeOf selector =
     (if truthy (s_attribute selector) then the (s_attribute selector) else ''text'')"

text \<open>One pass of the body of \<^verbatim>\<open>elements.each\<close>: a null value is not pushed.\<close>

definition pushValue :: "SelectorConfig \<Rightarrow> element \<Rightarrow> SelectorResult list" where
  "pushValue selector el =
     (case extractValueFromElement el (attributeOf selector) of
        None \<Rightarrow> []
      | Some v \<Rightarrow> [\<lparr>r_name = s_name selector, r_value = Str v\<rparr>])"

text \<open>The \<^verbatim>\<open>try\<close> block of \<^verbatim>\<open>applySelector\<close> and its \<^verbatim>\<open>catch\<close>: an exception of
  the query, of \<^verbatim>\<open>new RegExp\<close> or of the loop is handed to \<^verbatim>\<open>handleError\<close>, and
  \<^verbatim>\<open>results\<close>, still empty, is returned.\<close>

definition applySelector ::
  "env \<Rightarrow> jsstring \<Rightarrow> SelectorConfig \<Rightarrow> world \<Rightarrow> SelectorResult list \<times> world" where
  "applySelector env html selector w =
     (if s_type selector = ''css'' then
        (case cheerio env html (s_value selector) of
           Inl msg \<Rightarrow> ([], handleError msg w)
         | Inr elements \<Rightarrow>
             if elements = [] then ([], w)
             else if s_multiple selector then (concat (map (pushValue selector) elements), w)
             else (pushValue selector (hd elements), w))
      else if s_type selector = ''xpath'' then ([], w)
      else if s_type selector = ''regex'' then
        (case newRegExp env (s_value selector) of
           Inl msg \<Rightarrow> ([], handleError msg w)
         | Inr regex \<Rightarrow>
             (case collectMatches regex html 0 [] of
                Inl msg \<Rightarrow> ([], handleError msg w)
              | Inr matches \<Rightarrow>
                  if matches \<noteq> [] then
                    (if s_multiple selector
                     then ([\<lparr>r_name = s_name selector, r_value = Arr matches\<rparr>], w)
                     else ([\<lparr>r_name = s_name selector, r_value = Str (hd matches)\<rparr>], w))
                  else ([], w)))
      else ([], w))"

subsection \<open>\<^verbatim>\<open>processSelectors\<close>\<close>

text \<open>The loop over the selectors: \<^verbatim>\<open>selectorResults[selector.name] = results\<close> when
  \<^verbatim>\<open>results\<close> is not empty.\<close>

fun applySelectors ::
  "env \<Rightarrow> jsstring \<Rightarrow> SelectorConfig list \<Rightarrow> resultsObject \<Rightarrow> world \<Rightarrow> resultsObject \<times> world" where
  "applySelectors env html [] selectorResults w = (selectorResults, w)"
| "applySelectors env html (selector # rest) selectorResults w =
     (case applySelector env html selector w of
        (results, w1) \<Rightarrow>
          applySelectors env html rest
            (if length results > 0 then assign (s_name selector) results selectorResults
             else selectorResults) w1)"

definition processSelectors ::
  "env \<Rightarrow> jsstring \<Rightarrow> SelectorConfig list \<Rightarrow> world \<Rightarrow> ScrapedItem list \<times> world" where
  "processSelectors env html selectors w =
     (case applySelectors env html selectors emptyObject w of
        (selectorResults, w1) \<Rightarrow> (structureResults selectorResults, w1))"

subsection \<open>Crawl Controller: \<^verbatim>\<open>scrapeUrl\<close> and \<^verbatim>\<open>startScraping\<close>\<close>

text \<open>How a call of \<^verbatim>\<open>scrapeUrl\<close> ends: it returns, or it throws an error with a
  message.\<close>

datatype outcome = Returned | Thrown string

definition scrapeUrl ::
  "env \<Rightarrow> ScraperServiceConfig \<Rightarrow> string \<Rightarrow> SelectorConfig list \<Rightarrow> world \<Rightarrow> outcome \<times> world" where
  "scrapeUrl env sc url selectors w =
     (case fetchUrl env sc url 0 w of
        (html, w1) \<Rightarrow>
          if \<not> truthy html then
            (Thrown (''Failed to fetch content from '' @ url),
             handleError (''Failed to fetch content from '' @ url) w1)
          else
            (case processSelectors env (the html) selectors w1 of
               (results, w2) \<Rightarrow>
                 (let s = (svc w2)\<lparr>processedItems := processedItems (svc w2) + length results,
                                   totalItems := totalItems (svc w2) + length results\<rparr>
                  in (Returned,
                       w2\<lparr>svc := s,
                          store := appendScrapedData results
                            (updateProgress (processedItems s) (totalItems s) (store w2))\<rparr>))))"

text \<open>The promise awaited while \<^verbatim>\<open>isPaused\<close>: \<^verbatim>\<open>checkPause\<close> runs at once and then
  every 500 ms, until the pause is over or a stop is asked for. The wait has no bound of
  its own: the first argument is the number of checks allowed, and \<open>None\<close> says that they
  did not suffice.\<close>

fun waitWhilePaused :: "nat \<Rightarrow> env \<Rightarrow> world \<Rightarrow> world option" where
  "waitWhilePaused 0 env w = None"
| "waitWhilePaused (Suc fuel) env w =
     (if \<not> isPaused (svc w) \<or> shouldStop (svc w) then Some w
      else waitWhilePaused fuel env (sleep env 500 w))"

text \<open>\<^verbatim>\<open>!pagination.maxPages || pagesScraped < pagination.maxPages\<close>.\<close>

definition withinMaxPages :: "PaginationConfig \<Rightarrow> nat \<Rightarrow> bool" where
  "withinMaxPages pagination pagesScraped =
     (case p_maxPages pagination of
        None \<Rightarrow> True
      | Some maxPages \<Rightarrow> maxPages = 0 \<or> pagesScraped < maxPages)"

text \<open>The \<^verbatim>\<open>while\<close> loop of \<^verbatim>\<open>startScraping\<close>. The first argument bounds its
  iterations, the second the checks of a pause.\<close>

fun crawlLoop ::
  "nat \<Rightarrow> nat \<Rightarrow> env \<Rightarrow> ScraperServiceConfig \<Rightarrow> ScraperConfig \<Rightarrow> PaginationConfig
     \<Rightarrow> string option \<Rightarrow> nat \<Rightarrow> world \<Rightarrow> (outcome \<times> world) option" where
  "crawlLoop 0 fuel env sc cfg pagination nextPageUrl pagesScraped w = None"
| "crawlLoop (Suc n) fuel env sc cfg pagination nextPageUrl pagesScraped w =
     (if truthy nextPageUrl \<and> isRunning (svc w) \<and> \<not> shouldStop (svc w)
         \<and> withinMaxPages pagination pagesScraped
      then
        (case (if isPaused (svc w) then waitWhilePaused fuel env w else Some w) of
           None \<Rightarrow> None
         | Some w1 \<Rightarrow>
             if isPaused (svc w) \<and> shouldStop (svc w1) then Some (Returned, w1)
             else
               (let w2 = applyRateLimit env (c_rateLimit cfg) w1;
                    next = getNextPageUrl (the nextPageUrl) pagination (pagesScraped + 1)
                in if truthy next then
                     (case scrapeUrl env sc (the next) (c_selectors cfg) w2 of
                        (Thrown msg, w3) \<Rightarrow> Some (Thrown msg, w3)
                      | (Returned, w3) \<Rightarrow>
                          crawlLoop n fuel env sc cfg pagination next (pagesScraped + 1) w3)
                   else crawlLoop n fuel env sc cfg pagination next pagesScraped w2))
      else Some (Returned, w))"

text \<open>The \<^verbatim>\<open>try\<close> block of \<^verbatim>\<open>startScraping\<close> up to the end of the loop.\<close>

definition runPages ::
  "nat \<Rightarrow> env \<Rightarrow> ScraperServiceConfig \<Rightarrow> ScraperConfig \<Rightarrow> world \<Rightarrow> (outcome \<times> world) option" where
  "runPages fuel env sc cfg w =
     (case scrapeUrl env sc (c_url cfg) (c_selectors cfg) w of
        (Thrown msg, w1) \<Rightarrow> Some (Thrown msg, w1)
      | (Returned, w1) \<Rightarrow>
          (case c_pagination cfg of
             None \<Rightarrow> Some (Returned, w1)
           | Some pagination \<Rightarrow>
               if p_enabled pagination \<and> truthy (p_selector pagination)
               then crawlLoop fuel fuel env sc cfg pagination (Some (c_url cfg)) 1 w1
               else Some (Returned, w1)))"

text \<open>The end of \<^verbatim>\<open>startScraping\<close>: \<^verbatim>\<open>completeScraping\<close> unless a stop was asked
  for, the \<^verbatim>\<open>catch\<close> block, and \<^verbatim>\<open>finally\<close>.\<close>

definition finishRun :: "env \<Rightarrow> outcome \<Rightarrow> world \<Rightarrow> world" where
  "finishRun env out w =
     (let w1 = (case out of
                  Returned \<Rightarrow>
                    if \<not> shouldStop (svc w)
                    then w\<lparr>store := completeScraping (uuidv4 env (uuids w)) (clock w) (store w),
                           uuids := Suc (uuids w)\<rparr>
                    else w
                | Thrown msg \<Rightarrow> handleError msg w)
      in w1\<lparr>svc := (svc w1)\<lparr>isRunning := False\<rparr>\<rparr>)"

definition startScraping ::
  "nat \<Rightarrow> env \<Rightarrow> ScraperServiceConfig \<Rightarrow> ScraperConfig \<Rightarrow> world \<Rightarrow> world option" where
  "startScraping fuel env sc cfg w =
     (if c_url cfg = [] \<or> c_selectors cfg = [] then
        Some (w\<lparr>store := setError ''URL and at least one selector are required'' (store w)\<rparr>)
      else
        (case runPages fuel env sc cfg
                (w\<lparr>svc := (svc w)\<lparr>isRunning := True, isPaused := False, shouldStop := False,
                                   currentPage := 1, totalItems := 0, processedItems := 0\<rparr>\<rparr>) of
           None \<Rightarrow> None
         | Some (out, w2) \<Rightarrow> Some (finishRun env out w2)))"

text \<open>The middleware on the action \<^verbatim>\<open>startScraping\<close>: the reducer runs, then the
  service is started with the configuration of the store.\<close>

definition dispatchStartScraping ::
  "nat \<Rightarrow> env \<Rightarrow> ScraperServiceConfig \<Rightarrow> world \<Rightarrow> world option" where
  "dispatchStartScraping fuel env sc w =
     (let w1 = w\<lparr>store := startScrapingR (clock w) (store w)\<rparr>
      in startScraping fuel env sc (config (store w1)) w1)"

subsection \<open>Concrete inputs\<close>

text \<open>Three selectors on one page: a title found once, three prices, two stock codes.\<close>

definition exampleResults :: resultsObject where
  "exampleResults =
     \<lparr>own =
        [(''title'', [\<lparr>r_name = ''title'', r_value = Str (units ''Shop'')\<rparr>]),
         (''price'', [\<lparr>r_name = ''price'', r_value = Str (units ''1'')\<rparr>,
                      \<lparr>r_name = ''price'', r_value = Str (units ''2'')\<rparr>,
                      \<lparr>r_name = ''price'', r_value = Str (units ''3'')\<rparr>]),
         (''sku'', [\<lparr>r_name = ''sku'', r_value = Str (units ''a'')\<rparr>,
                    \<lparr>r_name = ''sku'', r_value = Str (units ''b'')\<rparr>])],
      proto = None\<rparr>"

text \<open>Pagination by address pattern.\<close>

definition examplePagination :: PaginationConfig where
  "examplePagination =
     \<lparr>p_enabled = True, p_type = ''url'', p_selector = Some ''/p/{page}/x'', p_maxPages = Some 5\<rparr>"

text \<open>The node of \<^verbatim>\<open><a href="/w" title="">&nbsp; Widget &#x2003;</a>\<close>, whose text
  begins with a no-break space and a space and ends with a space and an em space; the node
  of \<^verbatim>\<open><a href="/w" title=""></a>\<close>, without text or markup; and a selector that reads
  the attribute \<^verbatim>\<open>title\<close>.\<close>

definition widgetLink :: element where
  "widgetLink =
     \<lparr>el_text = [0xA0, 0x20] @ units ''Widget'' @ [0x20, 0x2003],
      el_html = units ''&nbsp; Widget &#x2003;'',
      el_attrs = [(''href'', units ''/w''), (''title'', [])]\<rparr>"

definition emptyLink :: element where
  "emptyLink = \<lparr>el_text = [], el_html = [], el_attrs = [(''href'', units ''/w''), (''title'', [])]\<rparr>"

definition titleSelector :: SelectorConfig where
  "titleSelector =
     \<lparr>s_id = ''1'', s_name = ''t'', s_type = ''css'', s_value = ''a'',
      s_attribute = Some ''title'', s_multiple = False\<rparr>"

text \<open>The matcher of a pattern made of literal characters only.\<close>

definition literalMatcher :: "jsstring \<Rightarrow> matcher" where
  "literalMatcher lit S i = (if prefix lit (drop i S) then Some (i + length lit) else None)"

text \<open>The matcher of \<^verbatim>\<open>c*\<close> for a code unit \<open>c\<close>: it takes every \<open>c\<close> from the start index
  on and succeeds also when there is none.\<close>

definition starMatcher :: "nat \<Rightarrow> matcher" where
  "starMatcher c S i = Some (i + length (takeWhile (\<lambda>x. x = c) (drop i S)))"

text \<open>\<^verbatim>\<open>initialState\<close> of the slice (the user agent is shortened).\<close>

definition initialState :: ScraperState where
  "initialState =
     \<lparr>config =
        \<lparr>c_url = [], c_selectors = [],
         c_pagination = Some \<lparr>p_enabled = False, p_type = ''button'', p_selector = Some [],
                               p_maxPages = Some 1\<rparr>,
         c_rateLimit = \<lparr>requestDelay = 1000, concurrentRequests = 1, timeoutMs = 30000, retries = 3\<rparr>,
         c_headers = [(''User-Agent'', ''Mozilla/5.0'')]\<rparr>,
      status = Idle, data = [], error = None,
      progress = \<lparr>current = 0, total = 0, startTime = None, endTime = None\<rparr>,
      history = []\<rparr>"

text \<open>The configuration of the singleton \<^verbatim>\<open>scraperService\<close>.\<close>

definition defaultServiceConfig :: ScraperServiceConfig where
  "defaultServiceConfig =
     \<lparr>proxyURL = Some ''http://localhost:8000/proxy'', timeout = Some 30000,
      maxRetries = Some 3, userAgent = Some ''Mozilla/5.0''\<rparr>"

text \<open>A fresh service beside a fresh store.\<close>

definition initialWorld :: world where
  "initialWorld =
     \<lparr>svc = \<lparr>isRunning = False, isPaused = False, shouldStop = False, currentPage = 1,
              totalItems = 0, processedItems = 0\<rparr>,
      store = initialState, trace = [], requests = 0, ticks = 0, clock = 0, uuids = 0\<rparr>"

text \<open>A page with two links, and surroundings that always serve it: no call arrives, the query
  \<^verbatim>\<open>a\<close> selects the two links, \<^verbatim>\<open>a[\<close> and the pattern \<^verbatim>\<open>[\<close> are malformed.\<close>

definition twoLinks :: jsstring where
  "twoLinks = units ''<a>x</a><a>y</a>''"

definition exampleEnv :: env where
  "exampleEnv =
     \<lparr>axiosGet = (\<lambda>n url. Resolved 200 twoLinks),
      calls = (\<lambda>n. []),
      cheerio = (\<lambda>html q.
        if q = ''a['' then Inl ''Unmatched selector: [''
        else if q = ''a'' \<and> html = twoLinks
          then Inr [\<lparr>el_text = units ''x'', el_html = units ''x'', el_attrs = []\<rparr>,
                    \<lparr>el_text = units ''y'', el_html = units ''y'', el_attrs = []\<rparr>]
        else Inr []),
      newRegExp = (\<lambda>p.
        if p = ''['' then Inl ''Invalid regular expression: /[/: Unterminated character class''
        else if p = ''a*'' then Inr (starMatcher (of_char CHR ''a''))
        else Inr (literalMatcher (units p))),
      uuidv4 = (\<lambda>n. ''id-'' @ toString n)\<rparr>"

text \<open>Selectors and plans built from them.\<close>

definition regexSelector :: "string \<Rightarrow> bool \<Rightarrow> SelectorConfig" where
  "regexSelector p m =
     \<lparr>s_id = ''2'', s_name = ''m'', s_type = ''regex'', s_value = p,
      s_attribute = None, s_multiple = m\<rparr>"

definition cssSelector :: "string \<Rightarrow> bool \<Rightarrow> SelectorConfig" where
  "cssSelector q m =
     \<lparr>s_id = ''3'', s_name = ''link'', s_type = ''css'', s_value = q,
      s_attribute = None, s_multiple = m\<rparr>"

text \<open>A structural selector that the user names \<^verbatim>\<open>__proto__\<close>.\<close>

definition protoSelector :: SelectorConfig where
  "protoSelector =
     \<lparr>s_id = ''5'', s_name = ''__proto__'', s_type = ''css'', s_value = ''a'',
      s_attribute = None, s_multiple = True\<rparr>"

definition otherSelector :: "string \<Rightarrow> SelectorConfig" where
  "otherSelector kind =
     \<lparr>s_id = ''4'', s_name = ''k'', s_type = kind, s_value = ''$.items'',
      s_attribute = None, s_multiple = True\<rparr>"

definition plan :: "SelectorConfig list \<Rightarrow> PaginationConfig option \<Rightarrow> ScraperConfig" where
  "plan selectors pagination =
     \<lparr>c_url = ''http://x.test/'', c_selectors = selectors, c_pagination = pagination,
      c_rateLimit = \<lparr>requestDelay = 1000, concurrentRequests = 1, timeoutMs = 30000, retries = 3\<rparr>,
      c_headers = []\<rparr>"

text \<open>The fresh world after the reducer \<^verbatim>\<open>startScraping\<close>.\<close>

definition runningWorld :: world where
  "runningWorld = initialWorld\<lparr>store := startScrapingR 0 (store initialWorld)\<rparr>"

text \<open>A fresh service beside a store that holds a plan.\<close>

definition readyWorld :: "ScraperConfig \<Rightarrow> world" where
  "readyWorld cfg = initialWorld\<lparr>store := initialState\<lparr>config := cfg\<rparr>\<rparr>"

text \<open>Surroundings in which every request is refused.\<close>

definition downEnv :: env where
  "downEnv = exampleEnv\<lparr>axiosGet := (\<lambda>n url. Rejected \<lparr>e_message = ''Network Error'', e_response = None\<rparr>)\<rparr>"






section \<open>Properties\<close>

subsection \<open>Strings\<close>

lemma replaceFirst_here: "replaceFirst pat rep (pat @ post) = rep @ post"
proof (cases "pat @ post")
  case Nil
  then show ?thesis by simp
next
  case (Cons c cs)
  have "prefix pat (c # cs)"
    by (metis Cons prefixI)
  then have "replaceFirst pat rep (c # cs) = rep @ drop (length pat) (c # cs)"
    by simp
  then show ?thesis
    by (simp add: Cons [symmetric])
qed

lemma replaceFirst_at_first:
  "\<forall>i<length pre. \<not> prefix pat (drop i (pre @ pat @ post)) \<Longrightarrow>
   replaceFirst pat rep (pre @ pat @ post) = pre @ rep @ post"
proof (induction pre)
  case Nil
  then show ?case by (simp add: replaceFirst_here)
next
  case (Cons c pre)
  have "\<not> prefix pat ((c # pre) @ pat @ post)"
    using Cons.prems by (metis drop0 length_greater_0_conv list.distinct(1))
  moreover have "\<forall>i<length pre. \<not> prefix pat (drop i (pre @ pat @ post))"
    using Cons.prems by (metis Suc_less_eq append_Cons drop_Suc_Cons length_Cons)
  ultimately show ?case
    using Cons.IH by simp
qed

lemma replaceFirst_absent:
  "\<forall>i\<le>length s. \<not> prefix pat (drop i s) \<Longrightarrow> replaceFirst pat rep s = s"
proof (induction s)
  case Nil
  then show ?case by auto
next
  case (Cons c s)
  have "\<not> prefix pat (c # s)"
    using Cons.prems by (metis drop0 le0)
  moreover have "\<forall>i\<le>length s. \<not> prefix pat (drop i s)"
    using Cons.prems by (metis Suc_le_mono drop_Suc_Cons length_Cons)
  ultimately show ?case
    using Cons.IH by simp
qed

lemma trim_decomp:
  "s = takeWhile isWhiteSpace s @ trim s @ rev (takeWhile isWhiteSpace (rev (dropWhile isWhiteSpace s)))"
proof -
  let ?t = "dropWhile isWhiteSpace s"
  have "rev ?t = takeWhile isWhiteSpace (rev ?t) @ dropWhile isWhiteSpace (rev ?t)"
    by simp
  then have "?t = rev (dropWhile isWhiteSpace (rev ?t)) @ rev (takeWhile isWhiteSpace (rev ?t))"
    by (metis rev_append rev_rev_ident)
  then show ?thesis
    unfolding trim_def by (metis takeWhile_dropWhile_id)
qed

lemma trim_ends:
  assumes "trim s \<noteq> []"
  shows "\<not> isWhiteSpace (hd (trim s)) \<and> \<not> isWhiteSpace (last (trim s))"
proof -
  let ?t = "dropWhile isWhiteSpace s"
  let ?u = "dropWhile isWhiteSpace (rev ?t)"
  have u: "?u \<noteq> []" using assms by (simp add: trim_def)
  have t: "?t \<noteq> []"
  proof
    assume "?t = []"
    then have "?u = []" by (simp only: rev.simps(1) dropWhile.simps(1))
    with u show False by (simp only: not_True_eq_False)
  qed
  have "\<not> isWhiteSpace (hd ?u)" using u by (rule hd_dropWhile)
  then have l: "\<not> isWhiteSpace (last (trim s))"
    using u by (simp add: trim_def last_rev)
  have "last ?u = last (rev ?t)"
    using u by (metis last_appendR takeWhile_dropWhile_id)
  then have "hd (trim s) = hd ?t"
    using u t by (simp add: trim_def hd_rev last_rev)
  moreover have "\<not> isWhiteSpace (hd ?t)" using t by (rule hd_dropWhile)
  ultimately show ?thesis using l by simp
qed

lemma toString_nonempty: "toString n \<noteq> []"
  by (subst toString.simps) simp

lemma units_simps: "units [] = []" "units (c # cs) = of_char c # units cs"
  by (simp_all add: units_def)

declare units_simps [simp]

subsection \<open>Record Structurer\<close>

text \<open>Reading a record: a field other than \<^verbatim>\<open>__proto__\<close> holds what the last assignment to
  its key gave it.\<close>

lemma map_of_setField:
  "map_of (setField key v item) =
     (if key = ''__proto__'' then map_of item else (map_of item)(key \<mapsto> v))"
  by (simp add: setField_def update_conv')

lemma setField_other:
  "name \<notin> fst ` set es \<Longrightarrow>
   map_of (foldl (\<lambda>item (key, e). setField key (g e) item) init es) name = map_of init name"
  by (induction es arbitrary: init) (auto simp: map_of_setField)

lemma setField_lookup:
  "distinct (map fst es) \<Longrightarrow> (name, e) \<in> set es \<Longrightarrow> name \<noteq> ''__proto__'' \<Longrightarrow>
   map_of (foldl (\<lambda>item (key, e). setField key (g e) item) init es) name = Some (g e)"
proof (induction es arbitrary: init)
  case Nil
  then show ?case by simp
next
  case (Cons a es)
  then show ?case
    by (auto simp: setField_other map_of_setField image_iff)
qed

lemma Max_insert_max:
  "finite A \<Longrightarrow> Max (insert (max m l) A) = Max (insert m (insert l A))" for m l :: nat
  by (cases "A = {}") (simp_all add: max.assoc)

lemma maxLength_Max_gen:
  "foldl (\<lambda>m (key, e). case e of Array results \<Rightarrow> if length results > m then length results else m
                                  | Object r \<Rightarrow> m)
     m (map (\<lambda>(key, results). (key, Array results)) sr)
     = Max (insert m ((\<lambda>kv. length (snd kv)) ` set sr))"
proof (induction sr arbitrary: m)
  case Nil
  then show ?case by simp
next
  case (Cons a sr)
  obtain k rs where a: "a = (k, rs)" by (cases a)
  have step: "(if m < length rs then length rs else m) = max m (length rs)"
    by (simp add: max_def)
  show ?case
    unfolding a by (simp add: Cons.IH step Max_insert_max del: Max_insert)
qed

lemma forIn_plain:
  "proto obj = None \<Longrightarrow> forIn obj = map (\<lambda>(key, results). (key, Array results)) (own obj)"
  by (simp add: forIn_def)

lemma maxLength_eq:
  "proto obj = None \<Longrightarrow> maxLength obj = Max (insert 1 ((\<lambda>kv. length (snd kv)) ` set (own obj)))"
  by (simp add: maxLength_def forIn_plain maxLength_Max_gen)

text \<open>For results whose prototype was not replaced, \<^verbatim>\<open>structureResults\<close> produces max(1, longest
  result list) records, and in record \<open>i\<close> the key of a selector holds its \<open>i\<close>-th value when
  it has one, else its only value when it has exactly one, else null.\<close>

lemma structureResults_shape:
  assumes plain: "proto obj = None" and keys: "distinct (map fst (own obj))"
  shows "length (structureResults obj)
           = Max (insert 1 ((\<lambda>kv. length (snd kv)) ` set (own obj)))
       \<and> (own obj \<noteq> [] \<longrightarrow>
            length (structureResults obj)
              = max 1 (Max ((\<lambda>kv. length (snd kv)) ` set (own obj))))
       \<and> (\<forall>i < length (structureResults obj).
            \<forall>(name, results) \<in> set (own obj). name \<noteq> ''__proto__'' \<longrightarrow>
              map_of (structureResults obj ! i) name =
                Some (if i < length results then r_value (results ! i)
                      else if length results = 1 then r_value (results ! 0)
                      else Null))"
proof -
  let ?L = "(\<lambda>kv. length (snd kv)) ` set (own obj)"
  let ?es = "map (\<lambda>(key, results). (key, Array results)) (own obj)"
  have len: "length (structureResults obj) = Max (insert 1 ?L)"
    by (simp add: structureResults_def maxLength_eq [OF plain])
  have ne: "own obj \<noteq> [] \<longrightarrow> Max (insert 1 ?L) = max 1 (Max ?L)"
    by simp
  have d: "distinct (map fst ?es)"
    using keys by (simp add: comp_def case_prod_unfold)
  have cells: "map_of (structureResults obj ! i) name = Some (cell i (Array results))"
    if "i < length (structureResults obj)" "(name, results) \<in> set (own obj)" "name \<noteq> ''__proto__''"
    for i name results
  proof -
    have "i < maxLength obj"
      using that(1) by (simp add: structureResults_def)
    then have "structureResults obj ! i = buildItem i obj"
      by (simp add: structureResults_def)
    moreover have "(name, Array results) \<in> set ?es"
      using that(2) by force
    ultimately show ?thesis
      using setField_lookup [OF d _ that(3), of "Array results" "cell i" "[]"]
      by (simp add: buildItem_def forIn_plain [OF plain])
  qed
  show ?thesis
    using len ne cells by (auto simp: cell_def)
qed

lemma structureResults_example:
  "length (structureResults exampleResults) = 3
   \<and> structureResults exampleResults ! 2
        = [(''title'', Str (units ''Shop'')), (''price'', Str (units ''3'')), (''sku'', Null)]"
  by (simp add: structureResults_def maxLength_def buildItem_def forIn_def exampleResults_def
      setField_def cell_def upt_rec)

text \<open>The results \<^verbatim>\<open>processSelectors\<close> builds have distinct keys, none of them
  \<^verbatim>\<open>__proto__\<close>, and their prototype is replaced only by a selector of that name.\<close>

lemma assign_keeps:
  "distinct (map fst (own obj)) \<Longrightarrow> distinct (map fst (own (assign name results obj)))"
  "''__proto__'' \<notin> fst ` set (own obj) \<Longrightarrow> ''__proto__'' \<notin> fst ` set (own (assign name results obj))"
  "name \<noteq> ''__proto__'' \<Longrightarrow> proto (assign name results obj) = proto obj"
proof -
  have dom: "fst ` set (AList.update name results (own obj)) = {name} \<union> fst ` set (own obj)"
    by (rule dom_update)
  show "distinct (map fst (own obj)) \<Longrightarrow> distinct (map fst (own (assign name results obj)))"
    by (simp add: assign_def distinct_update)
  show "''__proto__'' \<notin> fst ` set (own obj) \<Longrightarrow>
      ''__proto__'' \<notin> fst ` set (own (assign name results obj))"
    using dom by (cases "name = ''__proto__''") (simp_all add: assign_def)
  show "name \<noteq> ''__proto__'' \<Longrightarrow> proto (assign name results obj) = proto obj"
    by (simp add: assign_def)
qed

lemma applySelectors_keeps:
  assumes "distinct (map fst (own obj))" "''__proto__'' \<notin> fst ` set (own obj)"
  shows "distinct (map fst (own (fst (applySelectors env html sels obj w))))
     \<and> ''__proto__'' \<notin> fst ` set (own (fst (applySelectors env html sels obj w)))
     \<and> ((\<forall>s \<in> set sels. s_name s \<noteq> ''__proto__'') \<longrightarrow>
          proto (fst (applySelectors env html sels obj w)) = proto obj)"
  using assms
proof (induction sels arbitrary: obj w)
  case Nil
  then show ?case by simp
next
  case (Cons s sels)
  obtain results w1 where a: "applySelector env html s w = (results, w1)"
    by (cases "applySelector env html s w")
  let ?obj = "if length results > 0 then assign (s_name s) results obj else obj"
  have "distinct (map fst (own ?obj))" "''__proto__'' \<notin> fst ` set (own ?obj)"
    using Cons.prems by (simp_all add: assign_keeps)
  from Cons.IH [OF this, of w1] show ?case
    by (auto simp: a assign_keeps(3))
qed

text \<open>
  C1. The claim fails on the code for a selector that the user names \<^verbatim>\<open>__proto__\<close>: the
  assignment \<^verbatim>\<open>selectorResults[selector.name] = results\<close> replaces the prototype of the
  object and adds no field, both iterations over the keys in \<^verbatim>\<open>structureResults\<close>
  then walk the indices of that array, whose entries have no \<^verbatim>\<open>length\<close>, and two results give one record with the keys
  \<^verbatim>\<open>0\<close> and \<^verbatim>\<open>1\<close>, both null, where the claim asks for two records that hold the two
  values. Under any other name the same results give the two records.
\<close>

theorem structureResults_proto:
  "structureResults (assign ''__proto__'' [r1, r2] emptyObject) = [[(''0'', Null), (''1'', Null)]]
   \<and> fst (processSelectors exampleEnv twoLinks [protoSelector] w) = [[(''0'', Null), (''1'', Null)]]
   \<and> fst (processSelectors exampleEnv twoLinks [cssSelector ''a'' True] w)
        = [[(''link'', Str (units ''x''))], [(''link'', Str (units ''y''))]]"
proof -
  have idx: "toString 0 = ''0''" "toString (Suc 0) = ''1''"
    by (simp_all add: toString.simps digit_char_def)
  have s: "structureResults (assign ''__proto__'' [r1, r2] emptyObject) = [[(''0'', Null), (''1'', Null)]]"
    for r1 r2
    by (simp add: structureResults_def maxLength_def buildItem_def forIn_def assign_def
        emptyObject_def setField_def cell_def idx upt_rec)
  have a: "applySelector exampleEnv twoLinks \<lparr>s_id = i, s_name = n, s_type = ''css'',
        s_value = ''a'', s_attribute = None, s_multiple = True\<rparr> w
      = ([\<lparr>r_name = n, r_value = Str (units ''x'')\<rparr>, \<lparr>r_name = n, r_value = Str (units ''y'')\<rparr>], w)"
    for i n
    by (simp add: applySelector_def exampleEnv_def pushValue_def attributeOf_def
        extractValueFromElement_def trim_def isWhiteSpace_def)
  have p: "fst (processSelectors exampleEnv twoLinks [protoSelector] w) = [[(''0'', Null), (''1'', Null)]]"
    using s by (simp add: processSelectors_def protoSelector_def a)
  have "structureResults (assign ''link'' [\<lparr>r_name = ''link'', r_value = Str (units ''x'')\<rparr>,
        \<lparr>r_name = ''link'', r_value = Str (units ''y'')\<rparr>] emptyObject)
      = [[(''link'', Str (units ''x''))], [(''link'', Str (units ''y''))]]"
    by (simp add: structureResults_def maxLength_def buildItem_def forIn_def assign_def
        emptyObject_def setField_def cell_def upt_rec)
  then have l: "fst (processSelectors exampleEnv twoLinks [cssSelector ''a'' True] w)
        = [[(''link'', Str (units ''x''))], [(''link'', Str (units ''y''))]]"
    by (simp add: processSelectors_def cssSelector_def a)
  show ?thesis
    using s p l by simp
qed

subsection \<open>Pagination Resolver\<close>

text \<open>
  C6. \<^verbatim>\<open>getNextPageUrl\<close> returns none when pagination is disabled or the expression is
  absent or empty. In mode \<^verbatim>\<open>url\<close> it always returns an address: the expression with
  its first \<^verbatim>\<open>{page}\<close> replaced by the decimal page number, or the expression itself
  when it has no \<^verbatim>\<open>{page}\<close>. The spec's example is the last conjunct.
\<close>

theorem getNextPageUrl_spec:
  "(\<not> p_enabled p \<or> \<not> truthy (p_selector p) \<longrightarrow> getNextPageUrl cur p n = None)
   \<and> (p_enabled p \<and> truthy (p_selector p) \<and> p_type p = ''url'' \<longrightarrow>
        (\<exists>address. getNextPageUrl cur p n = Some address))
   \<and> (p_enabled p \<and> p_type p = ''url'' \<and> p_selector p = Some (pre @ ''{page}'' @ post)
        \<and> (\<forall>i<length pre. \<not> prefix ''{page}'' (drop i (pre @ ''{page}'' @ post))) \<longrightarrow>
        getNextPageUrl cur p n = Some (pre @ toString n @ post))
   \<and> (p_enabled p \<and> p_type p = ''url'' \<and> p_selector p = Some e \<and> e \<noteq> []
        \<and> (\<forall>i\<le>length e. \<not> prefix ''{page}'' (drop i e)) \<longrightarrow>
        getNextPageUrl cur p n = Some e)
   \<and> getNextPageUrl cur
        \<lparr>p_enabled = True, p_type = ''url'',
         p_selector = Some ''https://x.test/p?page={page}'', p_maxPages = m\<rparr> 3
       = Some ''https://x.test/p?page=3''"
proof -
  have a: "\<not> p_enabled p \<or> \<not> truthy (p_selector p) \<longrightarrow> getNextPageUrl cur p n = None"
    by (simp add: getNextPageUrl_def)
  have b: "p_enabled p \<and> truthy (p_selector p) \<and> p_type p = ''url'' \<longrightarrow>
        (\<exists>address. getNextPageUrl cur p n = Some address)"
    by (simp add: getNextPageUrl_def)
  have c: "p_enabled p \<and> p_type p = ''url'' \<and> p_selector p = Some (pre @ ''{page}'' @ post)
        \<and> (\<forall>i<length pre. \<not> prefix ''{page}'' (drop i (pre @ ''{page}'' @ post))) \<longrightarrow>
        getNextPageUrl cur p n = Some (pre @ toString n @ post)"
    using replaceFirst_at_first [of pre "''{page}''" post "toString n"]
    by (simp add: getNextPageUrl_def)
  have d: "p_enabled p \<and> p_type p = ''url'' \<and> p_selector p = Some e \<and> e \<noteq> []
        \<and> (\<forall>i\<le>length e. \<not> prefix ''{page}'' (drop i e)) \<longrightarrow>
        getNextPageUrl cur p n = Some e"
    using replaceFirst_absent [of e "''{page}''" "toString n"]
    by (simp add: getNextPageUrl_def)
  have e: "getNextPageUrl cur
        \<lparr>p_enabled = True, p_type = ''url'',
         p_selector = Some ''https://x.test/p?page={page}'', p_maxPages = m\<rparr> 3
       = Some ''https://x.test/p?page=3''"
    by (simp add: getNextPageUrl_def toString.simps digit_char_def)
  show ?thesis
    using a b c d e by blast
qed

text \<open>C6 on the example pattern, enabled and disabled.\<close>

theorem getNextPageUrl_spec_witness:
  "p_enabled examplePagination \<and> p_type examplePagination = ''url''
   \<and> p_selector examplePagination = Some (''/p/'' @ ''{page}'' @ ''/x'')
   \<and> \<not> prefix ''{page}'' ''/p/{page}/x'' \<and> \<not> prefix ''{page}'' ''p/{page}/x''
   \<and> \<not> prefix ''{page}'' ''/{page}/x''
   \<and> getNextPageUrl ''/p/1/x'' examplePagination 12 = Some ''/p/12/x''
   \<and> \<not> p_enabled (examplePagination\<lparr>p_enabled := False\<rparr>)
   \<and> getNextPageUrl ''/p/1/x'' (examplePagination\<lparr>p_enabled := False\<rparr>) 12 = None"
proof -
  have h: "p_enabled examplePagination \<and> p_type examplePagination = ''url''
     \<and> p_selector examplePagination = Some (''/p/'' @ ''{page}'' @ ''/x'')
     \<and> (\<forall>i<length ''/p/''. \<not> prefix ''{page}'' (drop i (''/p/'' @ ''{page}'' @ ''/x'')))"
    by (simp add: examplePagination_def numeral_3_eq_3 less_Suc_eq)
  have t: "toString 12 = ''12''"
    by (simp add: toString.simps digit_char_def)
  have g: "getNextPageUrl ''/p/1/x'' examplePagination 12 = Some (''/p/'' @ toString 12 @ ''/x'')"
    using h getNextPageUrl_spec [of examplePagination "''/p/1/x''" 12 "''/p/''" "''/x''"]
    by blast
  have d: "\<not> p_enabled (examplePagination\<lparr>p_enabled := False\<rparr>)"
    by simp
  have n: "getNextPageUrl ''/p/1/x'' (examplePagination\<lparr>p_enabled := False\<rparr>) 12 = None"
    using d getNextPageUrl_spec [of "examplePagination\<lparr>p_enabled := False\<rparr>" "''/p/1/x''" 12]
    by blast
  have f: "\<not> prefix ''{page}'' ''/p/{page}/x'' \<and> \<not> prefix ''{page}'' ''p/{page}/x''
      \<and> \<not> prefix ''{page}'' ''/{page}/x''"
    by simp
  show ?thesis
    using h g d n f by (simp add: t)
qed

subsection \<open>Selector Evaluator: value of a node\<close>

text \<open>
  C7, as stated, fails: a node without inner markup gives null for \<^verbatim>\<open>html\<close>, not the
  empty string, and an attribute that is present but empty gives null as well.
\<close>

theorem extractValueFromElement_html_counterexample:
  "el_html emptyLink = []
   \<and> extractValueFromElement emptyLink ''html'' = None
   \<and> extractValueFromElement emptyLink ''html'' \<noteq> Some (el_html emptyLink)
   \<and> map_of (el_attrs emptyLink) ''title'' = Some []
   \<and> extractValueFromElement emptyLink ''title'' = None
   \<and> extractValueFromElement emptyLink ''title'' \<noteq> map_of (el_attrs emptyLink) ''title''"
  by (simp add: extractValueFromElement_def emptyLink_def)

text \<open>
  C7, amended. \<^verbatim>\<open>text\<close> gives the inner text without the white space at its ends,
  always a value; \<^verbatim>\<open>html\<close> gives the inner markup when it is not empty and null
  otherwise; any other name gives that attribute's value when it is present and not empty
  and null otherwise; and a null value is not added to the selector's results.
\<close>

theorem extractValueFromElement_cases:
  "extractValueFromElement el ''text'' = Some (trim (el_text el))
   \<and> (\<exists>l r. el_text el = l @ trim (el_text el) @ r
         \<and> (\<forall>c \<in> set l \<union> set r. isWhiteSpace c))
   \<and> (trim (el_text el) \<noteq> [] \<longrightarrow>
         \<not> isWhiteSpace (hd (trim (el_text el))) \<and> \<not> isWhiteSpace (last (trim (el_text el))))
   \<and> extractValueFromElement el ''html''
         = (if el_html el = [] then None else Some (el_html el))
   \<and> (a \<noteq> ''text'' \<and> a \<noteq> ''html'' \<longrightarrow>
         extractValueFromElement el a =
           (case map_of (el_attrs el) a of
              None \<Rightarrow> None
            | Some v \<Rightarrow> if v = [] then None else Some v))
   \<and> (a \<noteq> [] \<and> extractValueFromElement el a = None \<longrightarrow>
         pushValue (sel\<lparr>s_attribute := Some a\<rparr>) el = [])"
proof -
  let ?s = "el_text el"
  let ?l = "takeWhile isWhiteSpace ?s"
  let ?r = "rev (takeWhile isWhiteSpace (rev (dropWhile isWhiteSpace ?s)))"
  have "?s = ?l @ trim ?s @ ?r"
    by (rule trim_decomp)
  moreover have "\<forall>c \<in> set ?l \<union> set ?r. isWhiteSpace c"
    by (auto dest: set_takeWhileD)
  ultimately have dec: "\<exists>l r. ?s = l @ trim ?s @ r \<and> (\<forall>c \<in> set l \<union> set r. isWhiteSpace c)"
    by blast
  have attr: "a \<noteq> ''text'' \<and> a \<noteq> ''html'' \<longrightarrow>
         extractValueFromElement el a =
           (case map_of (el_attrs el) a of
              None \<Rightarrow> None
            | Some v \<Rightarrow> if v = [] then None else Some v)"
    by (simp add: extractValueFromElement_def split: option.split)
  have push: "a \<noteq> [] \<and> extractValueFromElement el a = None \<longrightarrow>
         pushValue (sel\<lparr>s_attribute := Some a\<rparr>) el = []"
    by (simp add: pushValue_def attributeOf_def)
  show ?thesis
    using dec attr push trim_ends [of ?s]
    by (simp add: extractValueFromElement_def)
qed

text \<open>C7 amended, on a link whose text is set between no-break, plain and em spaces, and on an
  empty link.\<close>

theorem extractValueFromElement_cases_witness:
  "trim (el_text widgetLink) \<noteq> []
   \<and> ''href'' \<noteq> ''text'' \<and> ''href'' \<noteq> ''html''
   \<and> ''title'' \<noteq> [] \<and> extractValueFromElement widgetLink ''title'' = None
   \<and> el_text widgetLink = [0xA0, 0x20] @ units ''Widget'' @ [0x20, 0x2003]
   \<and> extractValueFromElement widgetLink ''text'' = Some (units ''Widget'')
   \<and> extractValueFromElement widgetLink ''html'' = Some (units ''&nbsp; Widget &#x2003;'')
   \<and> extractValueFromElement widgetLink ''href'' = Some (units ''/w'')
   \<and> \<not> isWhiteSpace (hd (trim (el_text widgetLink)))
   \<and> pushValue titleSelector widgetLink = []
   \<and> extractValueFromElement emptyLink ''text'' = Some []
   \<and> extractValueFromElement emptyLink ''html'' = None"
proof -
  note href = extractValueFromElement_cases [of widgetLink "''href''" titleSelector]
  note title = extractValueFromElement_cases [of widgetLink "''title''" titleSelector]
  note none = extractValueFromElement_cases [of emptyLink "''href''" titleSelector]
  have t: "trim (el_text widgetLink) = units ''Widget''"
    by (simp add: widgetLink_def trim_def isWhiteSpace_def)
  have t0: "trim (el_text emptyLink) = []"
    by (simp add: emptyLink_def trim_def)
  have ne: "trim (el_text widgetLink) \<noteq> []"
    by (simp add: t)
  have names: "''href'' \<noteq> ''text'' \<and> ''href'' \<noteq> ''html'' \<and> ''title'' \<noteq> ''text''
      \<and> ''title'' \<noteq> ''html'' \<and> ''title'' \<noteq> []"
    by simp
  have tx: "el_text widgetLink = [0xA0, 0x20] @ units ''Widget'' @ [0x20, 0x2003]"
    by (simp add: widgetLink_def)
  from href have "extractValueFromElement widgetLink ''text'' = Some (trim (el_text widgetLink))"
    by (rule conjunct1)
  then have x1: "extractValueFromElement widgetLink ''text'' = Some (units ''Widget'')"
    by (simp only: t)
  from href have "extractValueFromElement widgetLink ''html''
      = (if el_html widgetLink = [] then None else Some (el_html widgetLink))"
    by blast
  then have x2: "extractValueFromElement widgetLink ''html'' = Some (units ''&nbsp; Widget &#x2003;'')"
    by (simp add: widgetLink_def)
  from href names have "extractValueFromElement widgetLink ''href'' =
      (case map_of (el_attrs widgetLink) ''href'' of
         None \<Rightarrow> None | Some v \<Rightarrow> if v = [] then None else Some v)"
    by blast
  then have x3: "extractValueFromElement widgetLink ''href'' = Some (units ''/w'')"
    by (simp add: widgetLink_def)
  from title names have "extractValueFromElement widgetLink ''title'' =
      (case map_of (el_attrs widgetLink) ''title'' of
         None \<Rightarrow> None | Some v \<Rightarrow> if v = [] then None else Some v)"
    by blast
  then have x4: "extractValueFromElement widgetLink ''title'' = None"
    by (simp add: widgetLink_def)
  from href ne have x5: "\<not> isWhiteSpace (hd (trim (el_text widgetLink)))"
    by blast
  from title names x4 have "pushValue (titleSelector\<lparr>s_attribute := Some ''title''\<rparr>) widgetLink = []"
    by blast
  then have x6: "pushValue titleSelector widgetLink = []"
    by (simp add: titleSelector_def)
  from none have "extractValueFromElement emptyLink ''text'' = Some (trim (el_text emptyLink))"
    by (rule conjunct1)
  then have x7: "extractValueFromElement emptyLink ''text'' = Some []"
    by (simp only: t0)
  from none have "extractValueFromElement emptyLink ''html''
      = (if el_html emptyLink = [] then None else Some (el_html emptyLink))"
    by blast
  then have x8: "extractValueFromElement emptyLink ''html'' = None"
    by (simp add: emptyLink_def)
  show ?thesis
    using ne names tx x1 x2 x3 x4 x5 x6 x7 x8 by blast
qed

subsection \<open>Selector Evaluator: one selector\<close>

lemma pushValue_length: "length (pushValue selector el) \<le> Suc 0"
  by (simp add: pushValue_def split: option.split)

text \<open>The matches collected extend those collected before, so the first match of the body is
  the first of the list the scan returns.\<close>

lemma collectMatches_extends:
  "collectMatches m html i acc = Inr ms \<Longrightarrow> prefix acc ms"
proof (induction m html i acc rule: collectMatches.induct)
  case (1 m html lastIndex matches)
  show ?case
  proof (cases "regexExec m html lastIndex")
    case None
    with 1(2) show ?thesis
      by (subst (asm) collectMatches.simps) simp
  next
    case (Some a)
    obtain x e where a: "a = (x, e)" by (cases a)
    from 1(2) Some a have lt: "length matches < maxArrayLength"
      and r: "collectMatches m html e (matches @ [x]) = Inr ms"
      by (subst (asm) collectMatches.simps; simp split: if_splits)+
    from 1(1) [OF Some a [symmetric] lt r] show ?thesis
      by (rule append_prefixD)
  qed
qed

lemma collectMatches_first:
  assumes "regexExec m html 0 = Some (x, e)" and "collectMatches m html 0 [] = Inr ms"
  shows "\<exists>xs. ms = x # xs"
proof -
  from assms have "collectMatches m html e [x] = Inr ms"
    by (subst (asm) collectMatches.simps) (simp split: if_splits)
  then have "prefix [x] ms"
    by (rule collectMatches_extends)
  then show ?thesis
    by (auto simp: prefix_def)
qed

text \<open>With \<^verbatim>\<open>multiple\<close> false a selector gives at most one value: for a structural selector
  the value of the first node matched (nothing when that value is null), for a pattern the
  first match when the scan returns its list, and nothing when the scan throws.\<close>

lemma applySelector_single:
  assumes "\<not> s_multiple selector"
  shows "length (fst (applySelector env html selector w)) \<le> 1
     \<and> (s_type selector = ''css'' \<and> cheerio env html (s_value selector) = Inr (el # els) \<longrightarrow>
          fst (applySelector env html selector w) =
            (case extractValueFromElement el (attributeOf selector) of
               None \<Rightarrow> []
             | Some v \<Rightarrow> [\<lparr>r_name = s_name selector, r_value = Str v\<rparr>]))
     \<and> (s_type selector = ''regex'' \<and> newRegExp env (s_value selector) = Inr regex
          \<and> regexExec regex html 0 = Some (x, e)
          \<and> collectMatches regex html 0 [] = Inr ms \<longrightarrow>
          fst (applySelector env html selector w) = [\<lparr>r_name = s_name selector, r_value = Str x\<rparr>])
     \<and> (s_type selector = ''regex'' \<and> newRegExp env (s_value selector) = Inr regex
          \<and> collectMatches regex html 0 [] = Inl msg \<longrightarrow>
          applySelector env html selector w = ([], handleError msg w))"
proof -
  have len: "length (fst (applySelector env html selector w)) \<le> 1"
    using assms
    by (auto simp: applySelector_def pushValue_length split: sum.splits)
  have css: "s_type selector = ''css'' \<and> cheerio env html (s_value selector) = Inr (el # els) \<longrightarrow>
          fst (applySelector env html selector w) =
            (case extractValueFromElement el (attributeOf selector) of
               None \<Rightarrow> []
             | Some v \<Rightarrow> [\<lparr>r_name = s_name selector, r_value = Str v\<rparr>])"
    using assms by (simp add: applySelector_def pushValue_def)
  have rex: "fst (applySelector env html selector w) = [\<lparr>r_name = s_name selector, r_value = Str x\<rparr>]"
    if "s_type selector = ''regex''" "newRegExp env (s_value selector) = Inr regex"
      "regexExec regex html 0 = Some (x, e)" "collectMatches regex html 0 [] = Inr ms"
  proof -
    from collectMatches_first [OF that(3,4)] obtain xs where "ms = x # xs" by blast
    then show ?thesis
      using assms that by (simp add: applySelector_def)
  qed
  have thrown: "s_type selector = ''regex'' \<and> newRegExp env (s_value selector) = Inr regex
          \<and> collectMatches regex html 0 [] = Inl msg \<longrightarrow>
          applySelector env html selector w = ([], handleError msg w)"
    by (simp add: applySelector_def)
  show ?thesis
    using len css rex thrown by blast
qed

lemma applySelector_single_example:
  "fst (applySelector exampleEnv twoLinks (regexSelector ''<a>'' False) w)
     = [\<lparr>r_name = ''m'', r_value = Str (units ''<a>'')\<rparr>]
   \<and> fst (applySelector exampleEnv twoLinks (cssSelector ''a'' False) w)
     = [\<lparr>r_name = ''link'', r_value = Str (units ''x'')\<rparr>]"
  by (simp add: applySelector_def exampleEnv_def regexSelector_def cssSelector_def twoLinks_def
      collectMatches.simps regexExec.simps literalMatcher_def maxArrayLength_def
      pushValue_def attributeOf_def extractValueFromElement_def trim_def isWhiteSpace_def)

text \<open>When every match is non-empty and ends inside the body, and the array has room for one
  match per index of the body, the scan returns its list.\<close>

lemma regexExec_progress:
  "regexExec m S i = Some (s, e) \<Longrightarrow> \<forall>j e'. m S j = Some e' \<longrightarrow> j < e' \<and> e' \<le> length S \<Longrightarrow>
   i < e \<and> e \<le> length S"
proof (induction m S i rule: regexExec.induct)
  case (1 m S lastIndex)
  show ?case
  proof (cases "m S lastIndex")
    case None
    with 1 show ?thesis
      by (subst (asm) (2) regexExec.simps) (auto split: if_splits)
  next
    case (Some e')
    with 1 show ?thesis
      by (subst (asm) (2) regexExec.simps) (auto split: if_splits)
  qed
qed

lemma collectMatches_returns:
  assumes progress: "\<forall>j e'. m S j = Some e' \<longrightarrow> j < e' \<and> e' \<le> length S"
  shows "length acc + (length S - i) < maxArrayLength \<Longrightarrow> \<exists>ms. collectMatches m S i acc = Inr ms"
proof (induction "length S - i" arbitrary: i acc rule: less_induct)
  case less
  show ?case
  proof (cases "regexExec m S i")
    case None
    then show ?thesis
      by (subst collectMatches.simps) simp
  next
    case (Some a)
    obtain s e where a: "a = (s, e)" by (cases a)
    have e: "i < e \<and> e \<le> length S"
      using regexExec_progress [OF Some [unfolded a] progress] .
    have "length S - e < length S - i"
      using e by arith
    moreover have "length acc + 1 + (length S - e) < maxArrayLength"
      using e less.prems by arith
    then have "length (acc @ [s]) + (length S - e) < maxArrayLength"
      by simp
    ultimately have "\<exists>ms. collectMatches m S e (acc @ [s]) = Inr ms"
      by (rule less.hyps)
    moreover have "length acc < maxArrayLength"
      using less.prems by simp
    ultimately show ?thesis
      using Some a by (subst collectMatches.simps) simp
  qed
qed

text \<open>When the matcher succeeds at \<^verbatim>\<open>lastIndex\<close> with an empty match, \<^verbatim>\<open>exec\<close> leaves
  \<^verbatim>\<open>lastIndex\<close> where it is; the loop pushes that match until the array is full and
  \<^verbatim>\<open>push\<close> throws.\<close>

lemma collectMatches_stuck_aux:
  "m html i = Some i \<Longrightarrow> i \<le> length html \<Longrightarrow> maxArrayLength - length acc = n \<Longrightarrow>
   collectMatches m html i acc = Inl ''Invalid array length''"
proof (induction n arbitrary: acc)
  case 0
  then have "regexExec m html i = Some ([], i)"
    by (subst regexExec.simps) simp
  with 0 show ?case
    by (subst collectMatches.simps) simp
next
  case (Suc n)
  then have r: "regexExec m html i = Some ([], i)"
    by (subst regexExec.simps) simp
  have "maxArrayLength - length (acc @ [[]]) = n"
    using Suc.prems(3) by simp
  with Suc.IH Suc.prems(1,2) have "collectMatches m html i (acc @ [[]]) = Inl ''Invalid array length''"
    by blast
  with r Suc.prems(3) show ?case
    by (subst collectMatches.simps) simp
qed

lemma collectMatches_stuck:
  "m html i = Some i \<Longrightarrow> i \<le> length html \<Longrightarrow>
   collectMatches m html i acc = Inl ''Invalid array length''"
  by (rule collectMatches_stuck_aux) simp_all

lemma starMatcher_again:
  "starMatcher c S (i + length (takeWhile (\<lambda>x. x = c) (drop i S)))
     = Some (i + length (takeWhile (\<lambda>x. x = c) (drop i S)))"
proof -
  let ?k = "length (takeWhile (\<lambda>x. x = c) (drop i S))"
  have "drop (i + ?k) S = dropWhile (\<lambda>x. x = c) (drop i S)"
    by (metis add.commute drop_drop dropWhile_eq_drop)
  moreover have "takeWhile (\<lambda>x. x = c) (dropWhile (\<lambda>x. x = c) (drop i S)) = []"
    by (metis (mono_tags, lifting) hd_dropWhile takeWhile.simps(1) takeWhile_eq_Nil_iff)
  ultimately show ?thesis
    by (simp add: starMatcher_def)
qed

lemma starMatcher_bound: "i \<le> length S \<Longrightarrow> i + length (takeWhile (\<lambda>x. x = c) (drop i S)) \<le> length S"
proof -
  assume "i \<le> length S"
  have "length (takeWhile (\<lambda>x. x = c) (drop i S)) \<le> length (drop i S)"
    by (rule length_takeWhile_le)
  then show ?thesis using \<open>i \<le> length S\<close> by simp
qed

lemma regexExec_star_first:
  "regexExec (starMatcher c) html 0
     = Some (takeWhile (\<lambda>x. x = c) html, length (takeWhile (\<lambda>x. x = c) html))"
  by (subst regexExec.simps) (simp add: starMatcher_def takeWhile_eq_take [symmetric])

lemma regexExec_star_again:
  "regexExec (starMatcher c) html (length (takeWhile (\<lambda>x. x = c) html))
     = Some ([], length (takeWhile (\<lambda>x. x = c) html))"
proof -
  let ?e = "length (takeWhile (\<lambda>x. x = c) html)"
  have "starMatcher c html ?e = Some ?e"
    using starMatcher_again [of c html 0] by simp
  moreover have "?e \<le> length html"
    by (rule length_takeWhile_le)
  ultimately show ?thesis
    by (subst regexExec.simps) simp
qed

lemma collectMatches_star:
  "collectMatches (starMatcher c) html 0 [] = Inl ''Invalid array length''"
proof -
  let ?e = "length (takeWhile (\<lambda>x. x = c) html)"
  have "starMatcher c html ?e = Some ?e"
    using starMatcher_again [of c html 0] by simp
  moreover have "?e \<le> length html"
    by (rule length_takeWhile_le)
  ultimately have "collectMatches (starMatcher c) html ?e [takeWhile (\<lambda>x. x = c) html]
      = Inl ''Invalid array length''"
    by (rule collectMatches_stuck)
  then show ?thesis
    by (subst collectMatches.simps) (simp add: regexExec_star_first maxArrayLength_def)
qed

text \<open>
  C10. The claim fails on the code for a pattern that can match the empty string. With
  \<^verbatim>\<open>a*\<close> on any body, once the leading run of \<^verbatim>\<open>a\<close> is matched \<^verbatim>\<open>exec\<close> returns the
  empty match at the same \<^verbatim>\<open>lastIndex\<close> again and again: the loop makes no progress,
  ends only when \<^verbatim>\<open>push\<close> throws \<^verbatim>\<open>Invalid array length\<close>, and no list of matches is
  returned; \<^verbatim>\<open>applySelector\<close> catches the error, sets the phase to failed and returns no
  result.
\<close>

theorem collectMatches_no_progress:
  "regexExec (starMatcher c) html (length (takeWhile (\<lambda>x. x = c) html))
     = Some ([], length (takeWhile (\<lambda>x. x = c) html))
   \<and> collectMatches (starMatcher c) html 0 [] = Inl ''Invalid array length''
   \<and> newRegExp exampleEnv ''a*'' = Inr (starMatcher (of_char CHR ''a''))
   \<and> applySelector exampleEnv html (regexSelector ''a*'' multiple) w
        = ([], handleError ''Invalid array length'' w)
   \<and> status (store (handleError ''Invalid array length'' w)) = Error"
proof -
  have pat: "newRegExp exampleEnv ''a*'' = Inr (starMatcher (of_char CHR ''a''))"
    by (simp add: exampleEnv_def)
  have "applySelector exampleEnv html (regexSelector ''a*'' multiple) w
        = ([], handleError ''Invalid array length'' w)"
    by (simp add: applySelector_def regexSelector_def pat collectMatches_star)
  moreover have "status (store (handleError ''Invalid array length'' w)) = Error"
    by (simp add: handleError_def setError_def)
  ultimately show ?thesis
    using regexExec_star_again [of c html] collectMatches_star [of c html] pat by simp
qed

text \<open>
  C9. The claim fails on the code at the same defect: with \<^verbatim>\<open>multiple\<close> false and the
  pattern \<^verbatim>\<open>a*\<close> on the body \<^verbatim>\<open>aab\<close>, the first match is \<^verbatim>\<open>aa\<close>, and the evaluator returns
  no value.
\<close>

theorem applySelector_first_match_lost:
  "\<not> s_multiple (regexSelector ''a*'' False)
   \<and> regexExec (starMatcher (of_char CHR ''a'')) (units ''aab'') 0 = Some (units ''aa'', 2)
   \<and> applySelector exampleEnv (units ''aab'') (regexSelector ''a*'' False) w
        = ([], handleError ''Invalid array length'' w)"
proof -
  have pat: "newRegExp exampleEnv ''a*'' = Inr (starMatcher (of_char CHR ''a''))"
    by (simp add: exampleEnv_def)
  have "regexExec (starMatcher (of_char CHR ''a'')) (units ''aab'') 0 = Some (units ''aa'', 2)"
    by (simp add: regexExec_star_first)
  moreover have "applySelector exampleEnv (units ''aab'') (regexSelector ''a*'' False) w
        = ([], handleError ''Invalid array length'' w)"
    by (simp add: applySelector_def regexSelector_def pat collectMatches_star)
  ultimately show ?thesis
    by (simp add: regexSelector_def)
qed

subsection \<open>Crawl Controller: rejected plans\<close>

text \<open>
  C2, amended. For a plan whose address or selector list is empty, \<^verbatim>\<open>startScraping\<close>
  dispatches \<^verbatim>\<open>setError\<close>: the phase becomes failed and the message is stored; the
  service's fields, the records, the progress, the history and the trace (no request) are
  as before.
\<close>

theorem startScraping_rejects:
  assumes "c_url cfg = [] \<or> c_selectors cfg = []"
  shows "\<exists>w'. startScraping fuel env sc cfg w = Some w'
           \<and> store w' = (store w)\<lparr>status := Error,
                 error := Some ''URL and at least one selector are required''\<rparr>
           \<and> svc w' = svc w \<and> trace w' = trace w \<and> requests w' = requests w
           \<and> ticks w' = ticks w \<and> clock w' = clock w \<and> uuids w' = uuids w"
  using assms by (auto simp: startScraping_def setError_def)

text \<open>
  C2, as stated, fails: from the initial state, whose address is empty, the rejected start
  leaves the phase failed and the error set, where they were idle and absent; so it does
  through the middleware.
\<close>

theorem startScraping_rejects_counterexample:
  "c_url (config initialState) = []
   \<and> status (store initialWorld) = Idle \<and> error (store initialWorld) = None
   \<and> startScraping 1 exampleEnv defaultServiceConfig (config initialState) initialWorld
        = Some (initialWorld\<lparr>store := initialState\<lparr>status := Error,
              error := Some ''URL and at least one selector are required''\<rparr>\<rparr>)
   \<and> startScraping 1 exampleEnv defaultServiceConfig (config initialState) initialWorld
        \<noteq> Some initialWorld
   \<and> map_option (\<lambda>w. status (store w)) (dispatchStartScraping 1 exampleEnv defaultServiceConfig initialWorld)
        = Some Error"
  by (simp add: startScraping_def dispatchStartScraping_def startScrapingR_def setError_def
      initialState_def initialWorld_def)

text \<open>C2 amended, on a plan without selectors.\<close>

theorem startScraping_rejects_witness:
  "c_selectors (plan [] None) = []
   \<and> map_option store (startScraping 1 exampleEnv defaultServiceConfig (plan [] None) runningWorld)
       = Some ((store runningWorld)\<lparr>status := Error,
                 error := Some ''URL and at least one selector are required''\<rparr>)
   \<and> map_option trace (startScraping 1 exampleEnv defaultServiceConfig (plan [] None) runningWorld)
       = Some []"
proof -
  have h: "c_url (plan [] None) = [] \<or> c_selectors (plan [] None) = []"
    by (simp add: plan_def)
  have t: "trace runningWorld = []"
    by (simp add: runningWorld_def initialWorld_def)
  from startScraping_rejects [OF h, of 1 exampleEnv defaultServiceConfig runningWorld]
  obtain w' where "startScraping 1 exampleEnv defaultServiceConfig (plan [] None) runningWorld = Some w'"
    and "store w' = (store runningWorld)\<lparr>status := Error,
                 error := Some ''URL and at least one selector are required''\<rparr>"
    and "trace w' = trace runningWorld"
    by blast
  then show ?thesis
    by (simp add: t plan_def)
qed

subsection \<open>Suspensions\<close>

text \<open>The calls that arrive during a suspension change the phase, the end time and the
  service's flags, nothing else.\<close>

lemma foldl_deliver:
  "(\<And>c w. g (deliver c w) = g w) \<Longrightarrow> g (foldl (\<lambda>w c. deliver c w) w cs) = g w"
  by (induction cs arbitrary: w) auto

lemma deliver_keeps:
  "trace (deliver c w) = trace w"
  "requests (deliver c w) = requests w"
  "clock (deliver c w) = clock w"
  "uuids (deliver c w) = uuids w"
  "ticks (deliver c w) = ticks w"
  "data (store (deliver c w)) = data (store w)"
  "error (store (deliver c w)) = error (store w)"
  "history (store (deliver c w)) = history (store w)"
  "config (store (deliver c w)) = config (store w)"
  "isRunning (svc (deliver c w)) = isRunning (svc w)"
  by (cases c; simp add: pauseScraping_def resumeScraping_def stopScraping_def
        pauseScrapingR_def resumeScrapingR_def stopScrapingR_def)+

lemma suspend_keeps:
  "trace (suspend env w) = trace w"
  "requests (suspend env w) = requests w"
  "clock (suspend env w) = clock w"
  "uuids (suspend env w) = uuids w"
  "ticks (suspend env w) = Suc (ticks w)"
  "data (store (suspend env w)) = data (store w)"
  "error (store (suspend env w)) = error (store w)"
  "history (store (suspend env w)) = history (store w)"
  "config (store (suspend env w)) = config (store w)"
  "isRunning (svc (suspend env w)) = isRunning (svc w)"
  unfolding suspend_def
  by (simp_all add: foldl_deliver [where g = trace] foldl_deliver [where g = requests]
        foldl_deliver [where g = clock] foldl_deliver [where g = uuids]
        foldl_deliver [where g = "\<lambda>w. data (store w)"]
        foldl_deliver [where g = "\<lambda>w. error (store w)"]
        foldl_deliver [where g = "\<lambda>w. history (store w)"]
        foldl_deliver [where g = "\<lambda>w. config (store w)"]
        foldl_deliver [where g = "\<lambda>w. isRunning (svc w)"]
        deliver_keeps)

lemma suspend_quiet: "calls env (ticks w) = [] \<Longrightarrow> suspend env w = w\<lparr>ticks := Suc (ticks w)\<rparr>"
  by (simp add: suspend_def)

subsection \<open>Selectors of another kind\<close>

lemma structureResults_Nil: "structureResults emptyObject = [[]]"
  by (simp add: structureResults_def maxLength_def buildItem_def forIn_def emptyObject_def)

lemma applySelector_other:
  "s_type s \<noteq> ''css'' \<Longrightarrow> s_type s \<noteq> ''regex'' \<Longrightarrow> applySelector env html s w = ([], w)"
  by (simp add: applySelector_def)

lemma applySelectors_other:
  "\<forall>s \<in> set sels. s_type s \<noteq> ''css'' \<and> s_type s \<noteq> ''regex'' \<Longrightarrow>
   applySelectors env html sels sr w = (sr, w)"
  by (induction sels) (simp_all add: applySelector_other)

lemma fetchUrl_ok:
  "axiosGet env (requests w) url = Resolved 200 body \<Longrightarrow>
   fetchUrl env sc url 0 w
     = (Some body, suspend env (w\<lparr>trace := trace w @ [Get url], requests := Suc (requests w)\<rparr>))"
  by (subst fetchUrl.simps) (simp add: attempt_def)

lemma scrapeUrl_other:
  assumes kinds: "\<forall>s \<in> set sels. s_type s \<noteq> ''css'' \<and> s_type s \<noteq> ''regex''"
    and page: "axiosGet env (requests w) url = Resolved 200 body" "body \<noteq> []"
  shows "\<exists>w2. scrapeUrl env sc url sels w = (Returned, w2)
           \<and> trace w2 = trace w @ [Get url]
           \<and> data (store w2) = data (store w) @ [[]]
           \<and> error (store w2) = error (store w)
           \<and> uuids w2 = uuids w
           \<and> (calls env (ticks w) = [] \<longrightarrow>
                shouldStop (svc w2) = shouldStop (svc w) \<and> status (store w2) = status (store w))"
proof -
  let ?w1 = "suspend env (w\<lparr>trace := trace w @ [Get url], requests := Suc (requests w)\<rparr>)"
  have f: "fetchUrl env sc url 0 w = (Some body, ?w1)"
    using page(1) by (rule fetchUrl_ok)
  have p: "processSelectors env body sels ?w1 = ([[]], ?w1)"
    using kinds by (simp add: processSelectors_def applySelectors_other structureResults_Nil)
  have q: "calls env (ticks w) = [] \<longrightarrow>
      ?w1 = w\<lparr>trace := trace w @ [Get url], requests := Suc (requests w), ticks := Suc (ticks w)\<rparr>"
    by (simp add: suspend_quiet)
  show ?thesis
    using page(2) q
    by (auto simp: scrapeUrl_def f p Let_def appendScrapedData_def updateProgress_def suspend_keeps)
qed

text \<open>
  C8, amended. A selector whose kind is neither \<^verbatim>\<open>css\<close> nor \<^verbatim>\<open>regex\<close> is not
  rejected: at evaluation it yields no values and reports no error, and a plan of such
  selectors (with an address, without pagination) whose page arrives is run: the page is
  requested, one record without fields is stored, the error is untouched, and the phase ends
  completed when no call arrives meanwhile.
\<close>

theorem other_kind_not_rejected:
  assumes kinds: "\<forall>s \<in> set (c_selectors cfg). s_type s \<noteq> ''css'' \<and> s_type s \<noteq> ''regex''"
    and plan: "c_url cfg \<noteq> []" "c_selectors cfg \<noteq> []" "c_pagination cfg = None"
    and page: "axiosGet env (requests w) (c_url cfg) = Resolved 200 body" "body \<noteq> []"
  shows "(\<forall>s \<in> set (c_selectors cfg). \<forall>html v. applySelector env html s v = ([], v))
     \<and> (\<exists>w'. startScraping fuel env sc cfg w = Some w'
           \<and> trace w' = trace w @ [Get (c_url cfg)]
           \<and> data (store w') = data (store w) @ [[]]
           \<and> error (store w') = error (store w)
           \<and> (calls env (ticks w) = [] \<longrightarrow> status (store w') = Completed))"
proof -
  define w0 where "w0 = w\<lparr>svc := (svc w)\<lparr>isRunning := True, isPaused := False, shouldStop := False,
                                   currentPage := 1, totalItems := 0, processedItems := 0\<rparr>\<rparr>"
  have w0: "requests w0 = requests w" "trace w0 = trace w" "store w0 = store w" "ticks w0 = ticks w"
    "\<not> shouldStop (svc w0)"
    by (simp_all add: w0_def)
  have a: "\<forall>s \<in> set (c_selectors cfg). \<forall>html v. applySelector env html s v = ([], v)"
    using kinds by (simp add: applySelector_other)
  from scrapeUrl_other [OF kinds, of env w0 "c_url cfg" body sc] page w0
  obtain w2 where s: "scrapeUrl env sc (c_url cfg) (c_selectors cfg) w0 = (Returned, w2)"
    and w2: "trace w2 = trace w @ [Get (c_url cfg)]" "data (store w2) = data (store w) @ [[]]"
      "error (store w2) = error (store w)"
      "calls env (ticks w) = [] \<longrightarrow> \<not> shouldStop (svc w2)"
    by auto
  have r: "runPages fuel env sc cfg w0 = Some (Returned, w2)"
    by (simp add: runPages_def s plan(3))
  have st: "startScraping fuel env sc cfg w = Some (finishRun env Returned w2)"
    using plan(1,2) r by (simp add: startScraping_def w0_def)
  have "calls env (ticks w) = [] \<longrightarrow> status (store (finishRun env Returned w2)) = Completed"
    using w2(4) by (simp add: finishRun_def completeScraping_def)
  moreover have "trace (finishRun env Returned w2) = trace w @ [Get (c_url cfg)]"
    using w2(1) by (simp add: finishRun_def)
  moreover have "data (store (finishRun env Returned w2)) = data (store w) @ [[]]"
    using w2(2) by (simp add: finishRun_def completeScraping_def)
  moreover have "error (store (finishRun env Returned w2)) = error (store w)"
    using w2(3) by (simp add: finishRun_def completeScraping_def)
  ultimately show ?thesis
    using a st by simp
qed

text \<open>
  C8, as stated, fails: a plan whose only selector has the kind \<^verbatim>\<open>jsonpath\<close> is started,
  fetched and completed without any error.
\<close>

theorem other_kind_counterexample:
  "s_type (otherSelector ''jsonpath'') = ''jsonpath''
   \<and> map_option (\<lambda>w. (status (store w), error (store w), data (store w), trace w))
        (dispatchStartScraping 5 exampleEnv defaultServiceConfig
           (readyWorld (plan [otherSelector ''jsonpath''] None)))
       = Some (Completed, None, [[]], [Get ''http://x.test/''])"
  by (simp add: dispatchStartScraping_def startScraping_def startScrapingR_def runPages_def
      scrapeUrl_def fetchUrl.simps attempt_def suspend_def processSelectors_def
      applySelector_def structureResults_def maxLength_def buildItem_def forIn_def
      emptyObject_def finishRun_def
      completeScraping_def appendScrapedData_def updateProgress_def
      exampleEnv_def plan_def otherSelector_def readyWorld_def initialWorld_def
      initialState_def twoLinks_def)

text \<open>C8 amended, on a plan whose only selector has the kind \<^verbatim>\<open>xpath\<close>.\<close>

theorem other_kind_not_rejected_witness:
  "s_type (otherSelector ''xpath'') \<noteq> ''css'' \<and> s_type (otherSelector ''xpath'') \<noteq> ''regex''
   \<and> c_url (plan [otherSelector ''xpath''] None) \<noteq> []
   \<and> c_selectors (plan [otherSelector ''xpath''] None) \<noteq> []
   \<and> c_pagination (plan [otherSelector ''xpath''] None) = None
   \<and> axiosGet exampleEnv (requests initialWorld) (c_url (plan [otherSelector ''xpath''] None))
        = Resolved 200 twoLinks
   \<and> twoLinks \<noteq> [] \<and> calls exampleEnv (ticks initialWorld) = []
   \<and> map_option (\<lambda>w. (status (store w), error (store w), data (store w), trace w))
        (startScraping 5 exampleEnv defaultServiceConfig (plan [otherSelector ''xpath''] None) initialWorld)
       = Some (Completed, None, [[]], [Get ''http://x.test/''])"
proof -
  let ?cfg = "plan [otherSelector ''xpath''] None"
  have k: "\<forall>s \<in> set (c_selectors ?cfg). s_type s \<noteq> ''css'' \<and> s_type s \<noteq> ''regex''"
    by (simp add: plan_def otherSelector_def)
  have p: "c_url ?cfg \<noteq> []" "c_selectors ?cfg \<noteq> []" "c_pagination ?cfg = None"
    by (simp_all add: plan_def)
  have g: "axiosGet exampleEnv (requests initialWorld) (c_url ?cfg) = Resolved 200 twoLinks"
    "twoLinks \<noteq> []"
    by (simp_all add: exampleEnv_def twoLinks_def)
  have q: "calls exampleEnv (ticks initialWorld) = []"
    by (simp add: exampleEnv_def)
  have i: "trace initialWorld = []" "data (store initialWorld) = []" "error (store initialWorld) = None"
    by (simp_all add: initialWorld_def initialState_def)
  from other_kind_not_rejected [OF k p g, of 5 defaultServiceConfig] q
  obtain w' where "startScraping 5 exampleEnv defaultServiceConfig ?cfg initialWorld = Some w'"
    and "trace w' = trace initialWorld @ [Get (c_url ?cfg)]"
    and "data (store w') = data (store initialWorld) @ [[]]"
    and "error (store w') = error (store initialWorld)"
    and "status (store w') = Completed"
    by blast
  then have "map_option (\<lambda>w. (status (store w), error (store w), data (store w), trace w))
        (startScraping 5 exampleEnv defaultServiceConfig ?cfg initialWorld)
       = Some (Completed, None, [[]], [Get ''http://x.test/''])"
    by (simp add: i plan_def)
  then show ?thesis
    using k p g q by (simp add: otherSelector_def plan_def)
qed

subsection \<open>Selectors that fail\<close>

text \<open>What a selector extracts does not depend on the state.\<close>

lemma applySelector_results_indep:
  "fst (applySelector env html s w) = fst (applySelector env html s v)"
  by (simp add: applySelector_def split: sum.split)

lemma applySelectors_results_indep:
  "fst (applySelectors env html sels sr w) = fst (applySelectors env html sels sr v)"
proof (induction sels arbitrary: sr w v)
  case Nil
  then show ?case by simp
next
  case (Cons s sels)
  obtain rs w1 where a: "applySelector env html s w = (rs, w1)"
    by (cases "applySelector env html s w")
  obtain rs' v1 where b: "applySelector env html s v = (rs', v1)"
    by (cases "applySelector env html s v")
  have "rs' = rs"
    using applySelector_results_indep [of env html s v w] a b by simp
  with a b show ?case
    using Cons.IH by simp
qed

lemma applySelectors_append:
  "applySelectors env html (xs @ ys) sr w =
     (case applySelectors env html xs sr w of
        (sr1, w1) \<Rightarrow> applySelectors env html ys sr1 w1)"
  by (induction xs arbitrary: sr w) (auto split: prod.split)

lemma applySelector_failed_stays:
  "status (store w) = Error \<and> error (store w) \<noteq> None \<Longrightarrow>
   status (store (snd (applySelector env html s w))) = Error
     \<and> error (store (snd (applySelector env html s w))) \<noteq> None"
  by (auto simp: applySelector_def handleError_def setError_def split: sum.splits)

lemma applySelectors_failed_stays:
  "status (store w) = Error \<and> error (store w) \<noteq> None \<Longrightarrow>
   status (store (snd (applySelectors env html sels sr w))) = Error
     \<and> error (store (snd (applySelectors env html sels sr w))) \<noteq> None"
proof (induction sels arbitrary: sr w)
  case Nil
  then show ?case by simp
next
  case (Cons s sels)
  obtain rs w1 where a: "applySelector env html s w = (rs, w1)"
    by (cases "applySelector env html s w")
  have "status (store w1) = Error \<and> error (store w1) \<noteq> None"
    using applySelector_failed_stays [OF Cons.prems, of env html s] a by simp
  then show ?case
    using Cons.IH a by simp
qed

lemma processSelectors_results:
  "fst (processSelectors env html sels w)
     = structureResults (fst (applySelectors env html sels emptyObject w))"
  "snd (processSelectors env html sels w) = snd (applySelectors env html sels emptyObject w)"
  by (simp_all add: processSelectors_def split: prod.split)

text \<open>
  C3, amended. A selector whose query or pattern is malformed yields no values and is
  reported by \<^verbatim>\<open>handleError\<close>, which sets the phase to failed and stores the message;
  the remaining selectors are evaluated, the records of the page are those of the plan
  without that selector, and the phase is failed when the page's extraction returns.
\<close>

theorem failing_selector_absorbed:
  assumes fails: "(s_type s = ''css'' \<and> cheerio env html (s_value s) = Inl msg)
                \<or> (s_type s = ''regex'' \<and> newRegExp env (s_value s) = Inl msg)"
  shows "applySelector env html s w = ([], handleError msg w)
     \<and> status (store (handleError msg w)) = Error
     \<and> error (store (handleError msg w)) = Some msg
     \<and> applySelectors env html (s # rest) sr w
          = applySelectors env html rest sr (handleError msg w)
     \<and> fst (processSelectors env html (before @ s # rest) w)
          = fst (processSelectors env html (before @ rest) w)
     \<and> (\<forall>items w'. processSelectors env html (before @ s # rest) w = (items, w') \<longrightarrow>
          status (store w') = Error \<and> error (store w') \<noteq> None)"
proof -
  have one: "applySelector env html s v = ([], handleError msg v)" for v
    using fails by (auto simp: applySelector_def)
  have err: "status (store (handleError msg v)) = Error \<and> error (store (handleError msg v)) = Some msg" for v
    by (simp add: handleError_def setError_def)
  have step: "applySelectors env html (s # rest) sr' v
      = applySelectors env html rest sr' (handleError msg v)" for sr' v
    by (simp add: one)
  obtain sr1 w1 where b: "applySelectors env html before emptyObject w = (sr1, w1)"
    by (cases "applySelectors env html before emptyObject w")
  have with_s: "applySelectors env html (before @ s # rest) emptyObject w
      = applySelectors env html rest sr1 (handleError msg w1)"
    by (simp add: applySelectors_append b one)
  have without: "applySelectors env html (before @ rest) emptyObject w
      = applySelectors env html rest sr1 w1"
    by (simp add: applySelectors_append b)
  have items: "fst (processSelectors env html (before @ s # rest) w)
      = fst (processSelectors env html (before @ rest) w)"
    using applySelectors_results_indep [of env html rest sr1 "handleError msg w1" w1]
    by (simp add: processSelectors_results with_s without)
  have "status (store (snd (processSelectors env html (before @ s # rest) w))) = Error
      \<and> error (store (snd (processSelectors env html (before @ s # rest) w))) \<noteq> None"
    using applySelectors_failed_stays [of "handleError msg w1" env html rest sr1] err [of w1]
    by (simp add: processSelectors_results with_s)
  then have failed: "\<forall>items w'. processSelectors env html (before @ s # rest) w = (items, w') \<longrightarrow>
          status (store w') = Error \<and> error (store w') \<noteq> None"
    by (metis snd_conv)
  show ?thesis
    using one err step items failed by blast
qed

text \<open>
  C3, as stated, fails: a malformed pattern among the selectors of a running page leaves
  the phase failed with its message, while the other selector's records are produced.
\<close>

theorem failing_selector_counterexample:
  "newRegExp exampleEnv (s_value (regexSelector ''['' False))
     = Inl ''Invalid regular expression: /[/: Unterminated character class''
   \<and> status (store runningWorld) = Running
   \<and> (\<lambda>(items, w). (items, status (store w), error (store w)))
        (processSelectors exampleEnv twoLinks
           [regexSelector ''['' False, cssSelector ''a'' True] runningWorld)
       = ([[(''link'', Str (units ''x''))], [(''link'', Str (units ''y''))]], Error,
          Some ''Invalid regular expression: /[/: Unterminated character class'')"
  by (simp add: processSelectors_def applySelector_def structureResults_def maxLength_def
      buildItem_def forIn_def assign_def emptyObject_def setField_def cell_def pushValue_def
      attributeOf_def extractValueFromElement_def trim_def
      isWhiteSpace_def handleError_def setError_def startScrapingR_def upt_rec
      exampleEnv_def regexSelector_def cssSelector_def runningWorld_def initialWorld_def
      initialState_def twoLinks_def)

text \<open>C3 amended, on the malformed pattern followed by a structural selector.\<close>

theorem failing_selector_absorbed_witness:
  "s_type (regexSelector ''['' False) = ''regex''
   \<and> newRegExp exampleEnv (s_value (regexSelector ''['' False))
        = Inl ''Invalid regular expression: /[/: Unterminated character class''
   \<and> fst (applySelector exampleEnv twoLinks (regexSelector ''['' False) runningWorld) = []
   \<and> status (store (snd (applySelector exampleEnv twoLinks (regexSelector ''['' False) runningWorld)))
        = Error
   \<and> fst (processSelectors exampleEnv twoLinks
          [regexSelector ''['' False, cssSelector ''a'' True] runningWorld)
        = [[(''link'', Str (units ''x''))], [(''link'', Str (units ''y''))]]"
proof -
  let ?msg = "''Invalid regular expression: /[/: Unterminated character class''"
  let ?s = "regexSelector ''['' False"
  have r: "s_type ?s = ''regex''" "newRegExp exampleEnv (s_value ?s) = Inl ?msg"
    by (simp_all add: regexSelector_def exampleEnv_def)
  then have f: "(s_type ?s = ''css'' \<and> cheerio exampleEnv twoLinks (s_value ?s) = Inl ?msg)
      \<or> (s_type ?s = ''regex'' \<and> newRegExp exampleEnv (s_value ?s) = Inl ?msg)"
    by simp
  note t = failing_selector_absorbed [OF f, of runningWorld "[cssSelector ''a'' True]" emptyObject "[]"]
  from t have one: "applySelector exampleEnv twoLinks ?s runningWorld = ([], handleError ?msg runningWorld)"
    by (rule conjunct1)
  then have a: "fst (applySelector exampleEnv twoLinks ?s runningWorld) = []"
    by simp
  from t have "status (store (handleError ?msg runningWorld)) = Error"
    by blast
  with one have e: "status (store (snd (applySelector exampleEnv twoLinks ?s runningWorld))) = Error"
    by simp
  from t have "fst (processSelectors exampleEnv twoLinks ([] @ ?s # [cssSelector ''a'' True]) runningWorld)
      = fst (processSelectors exampleEnv twoLinks ([] @ [cssSelector ''a'' True]) runningWorld)"
    by blast
  moreover have "fst (processSelectors exampleEnv twoLinks [cssSelector ''a'' True] runningWorld)
      = [[(''link'', Str (units ''x''))], [(''link'', Str (units ''y''))]]"
    by (simp add: processSelectors_def applySelector_def structureResults_def maxLength_def
      buildItem_def forIn_def assign_def emptyObject_def setField_def cell_def pushValue_def
      attributeOf_def extractValueFromElement_def trim_def upt_rec
      isWhiteSpace_def exampleEnv_def cssSelector_def twoLinks_def)
  ultimately have p: "fst (processSelectors exampleEnv twoLinks
          [?s, cssSelector ''a'' True] runningWorld)
        = [[(''link'', Str (units ''x''))], [(''link'', Str (units ''y''))]]"
    by simp
  show ?thesis
    using r a e p by (simp only: simp_thms)
qed

subsection \<open>Fetch Client\<close>

text \<open>A request that does not bring status 200 ends in the \<^verbatim>\<open>catch\<close> block, one event
  later.\<close>

lemma attempt_fails:
  assumes "\<forall>d. axiosGet env (requests w) url \<noteq> Resolved 200 d"
  shows "\<exists>e. attempt env url w
           = (Inr e, suspend env (w\<lparr>trace := trace w @ [Get url], requests := Suc (requests w)\<rparr>))"
  using assms by (cases "axiosGet env (requests w) url") (auto simp: attempt_def)

lemma reportProxyError_trace: "trace (reportProxyError e w) = trace w"
  by (simp add: reportProxyError_def handleError_def)

text \<open>Below the budget the client sleeps \<open>2 ^ retryCount\<close> seconds and tries again; at the
  budget it returns null.\<close>

lemma fetchUrl_retry:
  assumes "\<forall>d. axiosGet env (requests w) url \<noteq> Resolved 200 d" and "k < maxRetriesOf sc"
  shows "\<exists>w1. fetchUrl env sc url k w = fetchUrl env sc url (Suc k) w1
           \<and> trace w1 = trace w @ [Get url, Sleep (2 ^ k * 1000)]"
proof -
  from attempt_fails [OF assms(1)] obtain e where
    a: "attempt env url w
          = (Inr e, suspend env (w\<lparr>trace := trace w @ [Get url], requests := Suc (requests w)\<rparr>))"
    by blast
  let ?w1 = "suspend env (w\<lparr>trace := trace w @ [Get url], requests := Suc (requests w)\<rparr>)"
  have "fetchUrl env sc url k w
      = fetchUrl env sc url (Suc k) (sleep env (2 ^ k * 1000) (reportProxyError e ?w1))"
    using assms(2) by (subst fetchUrl.simps) (simp add: a)
  moreover have "trace (sleep env (2 ^ k * 1000) (reportProxyError e ?w1))
      = trace w @ [Get url, Sleep (2 ^ k * 1000)]"
    by (simp add: sleep_def suspend_keeps reportProxyError_trace)
  ultimately show ?thesis by blast
qed

lemma fetchUrl_exhausted:
  assumes "\<forall>d. axiosGet env (requests w) url \<noteq> Resolved 200 d" and "\<not> k < maxRetriesOf sc"
  shows "\<exists>w1. fetchUrl env sc url k w = (None, w1) \<and> trace w1 = trace w @ [Get url]"
proof -
  from attempt_fails [OF assms(1)] obtain e where
    a: "attempt env url w
          = (Inr e, suspend env (w\<lparr>trace := trace w @ [Get url], requests := Suc (requests w)\<rparr>))"
    by blast
  let ?w1 = "suspend env (w\<lparr>trace := trace w @ [Get url], requests := Suc (requests w)\<rparr>)"
  have "fetchUrl env sc url k w = (None, handleError (e_message e) (reportProxyError e ?w1))"
    using assms(2) by (subst fetchUrl.simps) (simp add: a)
  moreover have "trace (handleError (e_message e) (reportProxyError e ?w1)) = trace w @ [Get url]"
    by (simp add: handleError_def suspend_keeps reportProxyError_trace)
  ultimately show ?thesis by blast
qed

lemma fetchUrl_four_attempts:
  assumes down: "\<forall>n u d. axiosGet env n u \<noteq> Resolved 200 d" and budget: "maxRetriesOf sc = 3"
  shows "\<exists>w1. fetchUrl env sc url 0 w = (None, w1)
           \<and> trace w1 = trace w @ [Get url, Sleep 1000, Get url, Sleep 2000, Get url, Sleep 4000, Get url]"
proof -
  from fetchUrl_retry [of env w url 0 sc] down budget
  obtain w1 where 1: "fetchUrl env sc url 0 w = fetchUrl env sc url (Suc 0) w1"
    "trace w1 = trace w @ [Get url, Sleep 1000]" by auto
  from fetchUrl_retry [of env w1 url "Suc 0" sc] down budget
  obtain w2 where 2: "fetchUrl env sc url (Suc 0) w1 = fetchUrl env sc url (Suc (Suc 0)) w2"
    "trace w2 = trace w1 @ [Get url, Sleep 2000]" by auto
  from fetchUrl_retry [of env w2 url "Suc (Suc 0)" sc] down budget
  obtain w3 where 3: "fetchUrl env sc url (Suc (Suc 0)) w2 = fetchUrl env sc url (Suc (Suc (Suc 0))) w3"
    "trace w3 = trace w2 @ [Get url, Sleep 4000]" by auto
  from fetchUrl_exhausted [of env w3 url "Suc (Suc (Suc 0))" sc] down budget
  obtain w4 where 4: "fetchUrl env sc url (Suc (Suc (Suc 0))) w3 = (None, w4)"
    "trace w4 = trace w3 @ [Get url]" by auto
  show ?thesis
    using 1 2 3 4 by simp
qed

text \<open>
  C4. When no request brings status 200 and the budget is 3, \<^verbatim>\<open>fetchUrl\<close> makes four
  requests, sleeps 1 s, 2 s and 4 s between them and returns null; the run of a plan that
  is not rejected then ends with the same events, not running, in the failed phase with the
  message \<^verbatim>\<open>Failed to fetch content from ...\<close>.
\<close>

theorem fetch_exhausted_run_fails:
  assumes down: "\<forall>n u d. axiosGet env n u \<noteq> Resolved 200 d"
    and budget: "maxRetries sc = Some 3"
    and plan: "c_url cfg \<noteq> []" "c_selectors cfg \<noteq> []"
  shows "(\<exists>w1. fetchUrl env sc url 0 w = (None, w1)
           \<and> trace w1 = trace w @ [Get url, Sleep 1000, Get url, Sleep 2000, Get url, Sleep 4000, Get url])
     \<and> (\<exists>w'. startScraping fuel env sc cfg w = Some w'
           \<and> trace w' = trace w @ [Get (c_url cfg), Sleep 1000, Get (c_url cfg), Sleep 2000,
                                    Get (c_url cfg), Sleep 4000, Get (c_url cfg)]
           \<and> status (store w') = Error
           \<and> error (store w') = Some (''Failed to fetch content from '' @ c_url cfg)
           \<and> \<not> isRunning (svc w'))"
proof -
  have b: "maxRetriesOf sc = 3"
    using budget by (simp add: maxRetriesOf_def)
  define w0 where "w0 = w\<lparr>svc := (svc w)\<lparr>isRunning := True, isPaused := False, shouldStop := False,
                                   currentPage := 1, totalItems := 0, processedItems := 0\<rparr>\<rparr>"
  have w0: "trace w0 = trace w" by (simp add: w0_def)
  from fetchUrl_four_attempts [OF down b, of "c_url cfg" w0] w0
  obtain w1 where f: "fetchUrl env sc (c_url cfg) 0 w0 = (None, w1)"
    and t: "trace w1 = trace w @ [Get (c_url cfg), Sleep 1000, Get (c_url cfg), Sleep 2000,
                                    Get (c_url cfg), Sleep 4000, Get (c_url cfg)]"
    by auto
  let ?msg = "''Failed to fetch content from '' @ c_url cfg"
  have s: "scrapeUrl env sc (c_url cfg) (c_selectors cfg) w0 = (Thrown ?msg, handleError ?msg w1)"
    by (simp add: scrapeUrl_def f)
  have r: "runPages fuel env sc cfg w0 = Some (Thrown ?msg, handleError ?msg w1)"
    by (simp add: runPages_def s)
  have st: "startScraping fuel env sc cfg w = Some (finishRun env (Thrown ?msg) (handleError ?msg w1))"
    using plan r by (simp add: startScraping_def w0_def)
  have fin: "trace (finishRun env (Thrown ?msg) (handleError ?msg w1)) = trace w1"
    "status (store (finishRun env (Thrown ?msg) (handleError ?msg w1))) = Error"
    "error (store (finishRun env (Thrown ?msg) (handleError ?msg w1))) = Some ?msg"
    "\<not> isRunning (svc (finishRun env (Thrown ?msg) (handleError ?msg w1)))"
    by (simp_all add: finishRun_def handleError_def setError_def)
  show ?thesis
    using fetchUrl_four_attempts [OF down b, of url w] st fin t by simp
qed

text \<open>C4 when every request fails with \<^verbatim>\<open>Network Error\<close>.\<close>

theorem fetch_exhausted_run_fails_witness:
  "(\<forall>n u d. axiosGet downEnv n u \<noteq> Resolved 200 d)
   \<and> maxRetries defaultServiceConfig = Some 3
   \<and> map_option (\<lambda>w. (trace w, status (store w), error (store w), isRunning (svc w)))
        (startScraping 0 downEnv defaultServiceConfig (plan [cssSelector ''a'' True] None) runningWorld)
      = Some ([Get ''http://x.test/'', Sleep 1000, Get ''http://x.test/'', Sleep 2000,
               Get ''http://x.test/'', Sleep 4000, Get ''http://x.test/''],
              Error, Some ''Failed to fetch content from http://x.test/'', False)"
proof -
  let ?cfg = "plan [cssSelector ''a'' True] None"
  have d: "\<forall>n u d. axiosGet downEnv n u \<noteq> Resolved 200 d"
    by (simp add: downEnv_def)
  have b: "maxRetries defaultServiceConfig = Some 3"
    by (simp add: defaultServiceConfig_def)
  have p: "c_url ?cfg \<noteq> []" "c_selectors ?cfg \<noteq> []"
    by (simp_all add: plan_def)
  have i: "trace runningWorld = []"
    by (simp add: runningWorld_def initialWorld_def)
  from fetch_exhausted_run_fails [OF d b p, of "[]" runningWorld 0]
  obtain w' where "startScraping 0 downEnv defaultServiceConfig ?cfg runningWorld = Some w'"
    and "trace w' = trace runningWorld @ [Get (c_url ?cfg), Sleep 1000, Get (c_url ?cfg), Sleep 2000,
                                    Get (c_url ?cfg), Sleep 4000, Get (c_url ?cfg)]"
    and "status (store w') = Error"
    and "error (store w') = Some (''Failed to fetch content from '' @ c_url ?cfg)"
    and "\<not> isRunning (svc w')"
    by blast
  then have "map_option (\<lambda>w. (trace w, status (store w), error (store w), isRunning (svc w)))
        (startScraping 0 downEnv defaultServiceConfig ?cfg runningWorld)
      = Some ([Get ''http://x.test/'', Sleep 1000, Get ''http://x.test/'', Sleep 2000,
               Get ''http://x.test/'', Sleep 4000, Get ''http://x.test/''],
              Error, Some ''Failed to fetch content from http://x.test/'', False)"
    by (simp add: i plan_def)
  with d b show ?thesis by (simp only: simp_thms)
qed

subsection \<open>Crawl Controller: stop while paused\<close>

text \<open>A second round of \<^verbatim>\<open>stopScraping\<close> changes nothing.\<close>

lemma stopScraping_again: "stopScraping (deliver Stop w) = deliver Stop w"
  by (simp add: stopScraping_def stopScrapingR_def)






end
